theory Spec2Isabelle
  imports Main
begin

section \<open>Data model\<close>

text \<open>
  The export pipeline of the extension: \<^verbatim>\<open>src/marp-cli.ts\<close> (work files, config file,
  renderer invocation), the module it imports as \<^verbatim>\<open>./option\<close> (renderer options and theme
  work files) and the export command (\<^verbatim>\<open>doExport\<close>).  An asynchronous function is a
  state transformer over a \<open>world\<close>; a rejected promise or a thrown value is \<open>Inl\<close>.  The
  steps of one call run in the order of the source; operations that \<^verbatim>\<open>Promise.all\<close> runs
  concurrently run in list order.
\<close>

text \<open>The parts of \<^verbatim>\<open>vscode.Uri\<close>, \<^verbatim>\<open>vscode.WorkspaceFolder\<close> and
  \<^verbatim>\<open>vscode.TextDocument\<close> that the code reads.\<close>

record Uri =
  scheme :: string
  uri_path :: string
  fsPath :: string

record WorkspaceFolder =
  folder_uri :: Uri
  folder_name :: string

record TextDocument =
  uri :: Uri
  isDirty :: bool
  getText :: string

text \<open>Thrown values.  \<open>MarpCLIError\<close> is the class declared in \<^verbatim>\<open>marp-cli.ts\<close>; \<open>CLIError\<close> is
  the structured error of the renderer package with its \<^verbatim>\<open>errorCode\<close>; \<open>Error\<close> is any other
  \<^verbatim>\<open>Error\<close> with its name and message; \<open>Thrown\<close> is a thrown value that is not an
  \<^verbatim>\<open>Error\<close>, kept by its \<^verbatim>\<open>toString()\<close>.\<close>

datatype CLIErrorCode = NOT_FOUND_CHROMIUM | OTHER_CODE nat

datatype error =
    MarpCLIError string
  | CLIError CLIErrorCode string
  | Error string string
  | Thrown string

text \<open>File contents: a document's text, or a value written by \<^verbatim>\<open>JSON.stringify\<close>, kept as
  the JSON tree that is written.\<close>

datatype json =
    JBool bool
  | JString string
  | JArray "json list"
  | JObject "(string \<times> json) list"

datatype content = Text string | Json json

text \<open>The \<^verbatim>\<open>cleanup\<close> closures of the source, one constructor per closure:
  \<^verbatim>\<open>() => Promise.resolve()\<close>, \<^verbatim>\<open>() => promiseUnlink(target)\<close> and the closure returned by
  \<^verbatim>\<open>createConfigFile\<close>, which holds the config path and the cleanups of the theme files.\<close>

datatype cleanup =
    NoCleanup
  | UnlinkFile string
  | ConfigCleanup string "cleanup list"

record WorkFile =
  path :: string
  cleanup :: cleanup

text \<open>Arguments as \<^verbatim>\<open>runMarpCli(...argv)\<close> receives them: the export command passes an array
  of strings and an options object.\<close>

datatype arg = Str string | Arr "string list" | Opts "string option"

datatype event =
    WriteOk string content
  | WriteErr string
  | UnlinkOk string
  | UnlinkErr string
  | CleanupCalled cleanup
  | ConsoleInfo "arg list"
  | ConsoleError error
  | ConsoleDebug string nat
  | ProxyCreated nat
  | ProxyDisposed nat
  | ShowErrorMessage string
  | OpenExternal string

text \<open>The mutable state: the file system, \<^verbatim>\<open>process.env.CHROME_PATH\<close>, the number of
  \<^verbatim>\<open>nanoid()\<close> calls made so far, and the observable effects in order.\<close>

record world =
  files :: "string \<rightharpoonup> content"
  CHROME_PATH :: "string option"
  issued :: nat
  trace :: "event list"

text \<open>Modelled from the spec: the module \<^verbatim>\<open>./themes\<close> (\<^verbatim>\<open>ThemeType\<close>, the theme objects and
  \<^verbatim>\<open>loadStyles\<close>) is not among the sources.  A theme reference is a local file or remote; a
  resolved theme has its kind, its path and, when remote, the fetched content.
  \<^verbatim>\<open>loadStyles\<close> is a parameter of the host: it gives one promise per configured theme, here
  by its outcome.\<close>

datatype ThemeType = File | Remote

record Theme =
  theme_type :: ThemeType
  theme_path :: string
  theme_css :: string

text \<open>What the code takes from its host: Node's \<^verbatim>\<open>os\<close>, \<^verbatim>\<open>path\<close>, \<^verbatim>\<open>fs\<close> and
  \<^verbatim>\<open>process\<close>, the \<^verbatim>\<open>nanoid\<close> generator (its k-th token), the VS Code workspace and
  configuration, the theme loader, the renderer and the proxy server module.  A file
  operation fails with the error the host gives for that path.\<close>

record host =
  tmpdir :: string
  join :: "string \<Rightarrow> string \<Rightarrow> string"
  dirname :: "string \<Rightarrow> string"
  extname :: "string \<Rightarrow> string"
  platform :: string
  nanoid_token :: "nat \<Rightarrow> string"
  writeFile_error :: "string \<Rightarrow> error option"
  unlink_error :: "string \<Rightarrow> error option"
  getWorkspaceFolder :: "Uri \<Rightarrow> WorkspaceFolder option"
  config_chromePath :: "string option"
  config_enableHtml :: "bool option"
  config_enableExtensionAttrs :: "bool option"
  config_breaks :: "string option"
  preview_breaks :: "Uri \<Rightarrow> bool option"
  loadStyles :: "string option \<Rightarrow> (error + Theme) list"
  marpCli :: "arg list \<Rightarrow> error + int"
  createWorkspaceProxyServer :: "WorkspaceFolder \<Rightarrow> error + nat"

section \<open>File system and identifiers\<close>

definition log_event :: "event \<Rightarrow> world \<Rightarrow> world" where
  "log_event e w = w\<lparr>trace := trace w @ [e]\<rparr>"

definition nanoid :: "host \<Rightarrow> world \<Rightarrow> string \<times> world" where
  "nanoid h w = (nanoid_token h (issued w), w\<lparr>issued := Suc (issued w)\<rparr>)"

definition promiseWriteFile :: "host \<Rightarrow> string \<Rightarrow> content \<Rightarrow> world \<Rightarrow> (error + unit) \<times> world" where
  "promiseWriteFile h p c w =
     (case writeFile_error h p of
        Some e \<Rightarrow> (Inl e, log_event (WriteErr p) w)
      | None \<Rightarrow> (Inr (), log_event (WriteOk p c) (w\<lparr>files := (files w)(p \<mapsto> c)\<rparr>)))"

definition promiseUnlink :: "host \<Rightarrow> string \<Rightarrow> world \<Rightarrow> (error + unit) \<times> world" where
  "promiseUnlink h p w =
     (case unlink_error h p of
        Some e \<Rightarrow> (Inl e, log_event (UnlinkErr p) w)
      | None \<Rightarrow>
          (if files w p \<noteq> None
           then (Inr (), log_event (UnlinkOk p) (w\<lparr>files := (files w)(p := None)\<rparr>))
           else (Inl (Error ''Error'' ''ENOENT''), log_event (UnlinkErr p) w)))"

text \<open>\<^verbatim>\<open>Promise.all\<close> over operations that have all been started: every one runs, and the
  result is the first rejection, if any.\<close>

definition first_error :: "(error + unit) \<Rightarrow> (error + unit) \<Rightarrow> (error + unit)" where
  "first_error r rs = (case r of Inl e \<Rightarrow> Inl e | Inr _ \<Rightarrow> rs)"

fun run_cleanup :: "host \<Rightarrow> cleanup \<Rightarrow> world \<Rightarrow> (error + unit) \<times> world"
  and run_cleanups :: "host \<Rightarrow> cleanup list \<Rightarrow> world \<Rightarrow> (error + unit) \<times> world" where
  "run_cleanup h NoCleanup w = (Inr (), log_event (CleanupCalled NoCleanup) w)"
| "run_cleanup h (UnlinkFile target) w =
     promiseUnlink h target (log_event (CleanupCalled (UnlinkFile target)) w)"
| "run_cleanup h (ConfigCleanup tmpPath cs) w =
     (case promiseUnlink h tmpPath (log_event (CleanupCalled (ConfigCleanup tmpPath cs)) w) of
        (r, w1) \<Rightarrow> (case run_cleanups h cs w1 of (rs, w2) \<Rightarrow> (first_error r rs, w2)))"
| "run_cleanups h [] w = (Inr (), w)"
| "run_cleanups h (c # cs) w =
     (case run_cleanup h c w of
        (r, w1) \<Rightarrow> (case run_cleanups h cs w1 of (rs, w2) \<Rightarrow> (first_error r rs, w2)))"

section \<open>createWorkFile\<close>

definition createCleanup :: "string \<Rightarrow> cleanup" where
  "createCleanup target = UnlinkFile target"

definition createWorkFile :: "host \<Rightarrow> TextDocument \<Rightarrow> world \<Rightarrow> (error + WorkFile) \<times> world" where
  "createWorkFile h doc w =
     (if scheme (uri doc) = ''file'' \<and> \<not> isDirty doc
      then (Inr \<lparr>path = fsPath (uri doc), cleanup = NoCleanup\<rparr>, w)
      else
        (let text = getText doc;
             token = fst (nanoid h w);
             w0 = snd (nanoid h w);
             tmpFileName = ''.marp-vscode-tmp-'' @ token;
             sameDirTmpPath = join h (dirname h (fsPath (uri doc))) tmpFileName
         in
           (case promiseWriteFile h sameDirTmpPath (Text text) w0 of
              (Inr _, w1) \<Rightarrow>
                (Inr \<lparr>path = sameDirTmpPath, cleanup = createCleanup sameDirTmpPath\<rparr>, w1)
            | (Inl _, w1) \<Rightarrow>
                (case
                   (case getWorkspaceFolder h (uri doc) of
                      None \<Rightarrow> (None, w1)
                    | Some documentWorkspace \<Rightarrow>
                        (if scheme (folder_uri documentWorkspace) = ''file''
                         then
                           (let workspaceDir = fsPath (folder_uri documentWorkspace);
                                workspaceDirTmpPath = join h workspaceDir tmpFileName
                            in
                              (case promiseWriteFile h workspaceDirTmpPath (Text text) w1 of
                                 (Inr _, w2) \<Rightarrow>
                                   (Some \<lparr>path = workspaceDirTmpPath,
                                          cleanup = createCleanup workspaceDirTmpPath\<rparr>, w2)
                               | (Inl _, w2) \<Rightarrow> (None, w2)))
                         else (None, w1)))
                 of
                   (Some work, w2) \<Rightarrow> (Inr work, w2)
                 | (None, w2) \<Rightarrow>
                     (let tmpPath = join h (tmpdir h) tmpFileName in
                        (case promiseWriteFile h tmpPath (Text text) w2 of
                           (Inl e, w3) \<Rightarrow> (Inl e, w3)
                         | (Inr _, w3) \<Rightarrow>
                             (Inr \<lparr>path = tmpPath, cleanup = createCleanup tmpPath\<rparr>, w3)))))))"

section \<open>Renderer options and theme work files\<close>

record CLIOptions =
  allowLocalFiles :: bool
  html :: "bool option"
  extensionAttrs :: "bool option"
  markdown_breaks :: bool
  themeSet :: "string list"
  themeFiles :: "WorkFile list"

definition breaks :: "host \<Rightarrow> bool \<Rightarrow> bool" where
  "breaks h inheritedValue =
     (if config_breaks h = Some ''off'' then False
      else if config_breaks h = Some ''inherit'' then inheritedValue
      else True)"

text \<open>\<^verbatim>\<open>get<boolean>(key) || undefined\<close>: the key stays only when the setting is true.\<close>

definition or_undefined :: "bool option \<Rightarrow> bool option" where
  "or_undefined v = (if v = Some True then Some True else None)"

definition theme_tmp :: "host \<Rightarrow> string \<Rightarrow> string" where
  "theme_tmp h token = join h (tmpdir h) (''.marp-vscode-cli-theme-'' @ token @ ''.css'')"

text \<open>The options module imports \<^verbatim>\<open>nanoid\<close> as the default export of the package
  (\<^verbatim>\<open>import nanoid from 'nanoid'\<close>), while \<^verbatim>\<open>marp-cli.ts\<close> imports the named export
  (\<^verbatim>\<open>import { nanoid } from 'nanoid'\<close>).  The package is pinned to version 3, which has
  named exports only: the default import is not a function, and calling it throws a
  \<^verbatim>\<open>TypeError\<close> (the wording of its message is the engine's).\<close>

definition nanoid_type_error :: error where
  "nanoid_type_error = Error ''TypeError'' ''nanoid is not a function''"

definition default_import_nanoid :: "host \<Rightarrow> world \<Rightarrow> (error + string) \<times> world" where
  "default_import_nanoid h w = (Inl nanoid_type_error, w)"

text \<open>The callback \<^verbatim>\<open>async theme => ...\<close> of \<^verbatim>\<open>marpCoreOptionForCLI\<close>; \<open>None\<close> is the
  \<^verbatim>\<open>undefined\<close> it returns when neither branch is taken.\<close>

definition theme_fulfilled :: "host \<Rightarrow> Theme \<Rightarrow> world \<Rightarrow> (error + WorkFile option) \<times> world" where
  "theme_fulfilled h theme w =
     (if theme_type theme = File
      then (Inr (Some \<lparr>path = theme_path theme, cleanup = NoCleanup\<rparr>), w)
      else if theme_type theme = Remote
      then
        (case default_import_nanoid h w of
           (Inl e, w0) \<Rightarrow> (Inl e, w0)
         | (Inr token, w0) \<Rightarrow>
             (let tmp = theme_tmp h token in
                (case promiseWriteFile h tmp (Text (theme_css theme)) w0 of
                   (Inl e, w1) \<Rightarrow> (Inl e, w1)
                 | (Inr _, w1) \<Rightarrow> (Inr (Some \<lparr>path = tmp, cleanup = UnlinkFile tmp\<rparr>), w1))))
      else (Inr None, w))"

text \<open>\<^verbatim>\<open>promise.then(onFulfilled, e => console.error(e))\<close>: the second callback sees a
  rejection of the theme promise only, not a value thrown by the first callback.\<close>

definition theme_promise :: "host \<Rightarrow> (error + Theme) \<Rightarrow> world \<Rightarrow> (error + WorkFile option) \<times> world" where
  "theme_promise h p w =
     (case p of
        Inr theme \<Rightarrow> theme_fulfilled h theme w
      | Inl e \<Rightarrow> (Inr None, log_event (ConsoleError e) w))"

text \<open>\<^verbatim>\<open>Promise.all\<close>: every operation runs; the result is the list of values, or the
  first rejection.\<close>

fun promise_all :: "(world \<Rightarrow> (error + 'a) \<times> world) list \<Rightarrow> world \<Rightarrow> (error + 'a list) \<times> world" where
  "promise_all [] w = (Inr [], w)"
| "promise_all (f # fs) w =
     (case f w of
        (r, w1) \<Rightarrow>
          (case promise_all fs w1 of
             (rs, w2) \<Rightarrow>
               ((case r of
                   Inl e \<Rightarrow> Inl e
                 | Inr x \<Rightarrow> (case rs of Inl e \<Rightarrow> Inl e | Inr xs \<Rightarrow> Inr (x # xs))), w2)))"

definition baseFolder :: "host \<Rightarrow> Uri \<Rightarrow> string option" where
  "baseFolder h u =
     (let workspaceFolder = getWorkspaceFolder h u;
          parentFolder = (if scheme u = ''file'' then Some (dirname h (fsPath u)) else None)
      in (case workspaceFolder of
            Some folder \<Rightarrow> Some (fsPath (folder_uri folder))
          | None \<Rightarrow> parentFolder))"

definition styles_base :: "host \<Rightarrow> Uri \<Rightarrow> string option" where
  "styles_base h u =
     (case baseFolder h u of
        Some b \<Rightarrow> (if b \<noteq> [] then Some (''file:'' @ b) else None)
      | None \<Rightarrow> None)"

definition marpCoreOptionForCLI :: "host \<Rightarrow> TextDocument \<Rightarrow> world \<Rightarrow> (error + CLIOptions) \<times> world" where
  "marpCoreOptionForCLI h doc w =
     (let baseOpts =
            \<lparr>allowLocalFiles = True,
             html = or_undefined (config_enableHtml h),
             extensionAttrs = or_undefined (config_enableExtensionAttrs h),
             markdown_breaks = breaks h (preview_breaks h (uri doc) = Some True),
             themeSet = [],
             themeFiles = []\<rparr>
      in
        (case promise_all (map (theme_promise h) (loadStyles h (styles_base h (uri doc)))) w of
           (Inl e, w1) \<Rightarrow> (Inl e, w1)
         | (Inr results, w1) \<Rightarrow>
             (let found = List.map_filter id results in
                (Inr (baseOpts\<lparr>themeSet := map path found, themeFiles := found\<rparr>), w1))))"

section \<open>createConfigFile\<close>

text \<open>\<^verbatim>\<open>JSON.stringify(cliOpts)\<close>: keys in insertion order, a key whose value is
  \<^verbatim>\<open>undefined\<close> or a function is left out.\<close>

definition stringify :: "CLIOptions \<Rightarrow> json" where
  "stringify opts =
     JObject
       ([(''allowLocalFiles'', JBool (allowLocalFiles opts))]
        @ (case html opts of None \<Rightarrow> [] | Some b \<Rightarrow> [(''html'', JBool b)])
        @ (case extensionAttrs opts of None \<Rightarrow> [] | Some b \<Rightarrow> [(''extensionAttrs'', JBool b)])
        @ [(''options'', JObject [(''markdown'', JObject [(''breaks'', JBool (markdown_breaks opts))])]),
           (''themeSet'', JArray (map JString (themeSet opts))),
           (''vscode'',
              JObject [(''themeFiles'',
                 JArray (map (\<lambda>f. JObject [(''path'', JString (path f))]) (themeFiles opts)))])])"

text \<open>\<^verbatim>\<open>createConfigFile\<close> declares one parameter.  The export command calls it with a
  second argument, \<^verbatim>\<open>{ allowLocalFiles: !proxyServer }\<close>; a JavaScript call evaluates and
  drops an argument that has no parameter.  The model keeps it as \<open>extra\<close>.\<close>

definition createConfigFile ::
  "host \<Rightarrow> TextDocument \<Rightarrow> bool option \<Rightarrow> world \<Rightarrow> (error + WorkFile) \<times> world" where
  "createConfigFile h target extra w =
     (let token = fst (nanoid h w);
          w0 = snd (nanoid h w);
          tmpFileName = ''.marp-vscode-cli-conf-'' @ token @ ''.json'';
          tmpPath = join h (tmpdir h) tmpFileName
      in
        (case marpCoreOptionForCLI h target w0 of
           (Inl e, w1) \<Rightarrow> (Inl e, w1)
         | (Inr cliOpts, w1) \<Rightarrow>
             (case promiseWriteFile h tmpPath (Json (stringify cliOpts)) w1 of
                (Inl e, w2) \<Rightarrow> (Inl e, w2)
              | (Inr _, w2) \<Rightarrow>
                  (Inr \<lparr>path = tmpPath,
                        cleanup = ConfigCleanup tmpPath (map cleanup (themeFiles cliOpts))\<rparr>, w2))))"

section \<open>runMarpCli\<close>

text \<open>The dynamic import of the renderer package is taken to succeed; the renderer is
  the host's \<open>marpCli\<close>, by its outcome for the given arguments.

  A number in a template literal: an integer is printed in decimal.\<close>

definition digit :: "nat \<Rightarrow> char" where
  "digit d = ''0123456789'' ! d"

function decimal :: "nat \<Rightarrow> string" where
  "decimal n = (if n div 10 = 0 then [digit n] else decimal (n div 10) @ [digit (n mod 10)])"
  by pat_completeness auto
termination
  by (relation "measure id") auto

declare decimal.simps [simp del]

definition number_text :: "int \<Rightarrow> string" where
  "number_text i = (if 0 \<le> i then decimal (nat i) else CHR ''-'' # decimal (nat (- i)))"

text \<open>\<^verbatim>\<open>a || b\<close> on strings that may be \<^verbatim>\<open>undefined\<close>: the empty string is falsy.\<close>

definition js_or :: "string option \<Rightarrow> string option \<Rightarrow> string option" where
  "js_or a b = (case a of Some s \<Rightarrow> (if s \<noteq> [] then Some s else b) | None \<Rightarrow> b)"

text \<open>\<^verbatim>\<open>process.env.CHROME_PATH = v\<close>.  Node converts a value assigned to a property of
  \<^verbatim>\<open>process.env\<close> to a string, so assigning \<^verbatim>\<open>undefined\<close> stores the string
  \<^verbatim>\<open>'undefined'\<close>; only \<^verbatim>\<open>delete\<close> removes a variable.\<close>

definition env_assign :: "string option \<Rightarrow> string option" where
  "env_assign v = Some (case v of None \<Rightarrow> ''undefined'' | Some s \<Rightarrow> s)"

definition not_found_message :: "host \<Rightarrow> string" where
  "not_found_message h =
     (let chromium =
            (if platform h = ''linux'' then '' or [Chromium](https://www.chromium.org/)'' else [])
      in ''It requires to install [Google Chrome](https://www.google.com/chrome/)''
           @ chromium @ '' for exporting.'')"

definition exit_code_message :: "int \<Rightarrow> string" where
  "exit_code_message exitCode =
     ''Marp CLI throwed unexpected error with exit code '' @ number_text exitCode @ ''.''"

text \<open>The \<^verbatim>\<open>catch\<close> block: what is thrown on for a caught \<open>e\<close>.\<close>

definition rethrown :: "host \<Rightarrow> error \<Rightarrow> error" where
  "rethrown h e =
     (case e of
        CLIError NOT_FOUND_CHROMIUM _ \<Rightarrow> MarpCLIError (not_found_message h)
      | _ \<Rightarrow> e)"

definition runMarpCli :: "host \<Rightarrow> arg list \<Rightarrow> world \<Rightarrow> (error + unit) \<times> world" where
  "runMarpCli h argv w =
     (let w0 = log_event (ConsoleInfo argv) w;
          saved = CHROME_PATH w0;
          w1 = w0\<lparr>CHROME_PATH := env_assign (js_or (config_chromePath h) saved)\<rparr>
      in
        (case marpCli h argv of
           Inl e \<Rightarrow>
             (let w2 = log_event (ConsoleError e) w1;
                  w3 = w2\<lparr>CHROME_PATH := env_assign saved\<rparr>
              in (Inl (rethrown h e), w3))
         | Inr exitCode \<Rightarrow>
             (let w3 = w1\<lparr>CHROME_PATH := env_assign saved\<rparr>
              in (if exitCode \<noteq> 0
                  then (Inl (MarpCLIError (exit_code_message exitCode)), w3)
                  else (Inr (), w3)))))"

section \<open>doExport\<close>

datatype Types = HTML | PDF | PPTX | PNG | JPEG

fun extensions :: "Types \<Rightarrow> string list" where
  "extensions HTML = [''html'']"
| "extensions PDF = [''pdf'']"
| "extensions PPTX = [''pptx'']"
| "extensions PNG = [''png'']"
| "extensions JPEG = [''jpg'', ''jpeg'']"

definition chromiumRequiredExtensions :: "string list" where
  "chromiumRequiredExtensions =
     extensions PDF @ extensions PPTX @ extensions PNG @ extensions JPEG"

text \<open>\<^verbatim>\<open>s.replace(/^\./, '')\<close>.\<close>

definition strip_dot :: "string \<Rightarrow> string" where
  "strip_dot s = (case s of [] \<Rightarrow> [] | c # cs \<Rightarrow> (if c = CHR ''.'' then cs else s))"

definition shouldProvideWorkspaceProxyServer :: "host \<Rightarrow> Uri \<Rightarrow> TextDocument \<Rightarrow> bool" where
  "shouldProvideWorkspaceProxyServer h u document =
     (let ext = strip_dot (extname h (uri_path u))
      in (if ext \<in> set chromiumRequiredExtensions
          then scheme (uri document) \<notin> set [''file'', ''untitled'']
          else False))"

text \<open>The text of the error message; the \<^verbatim>\<open>name\<close> of the renderer's structured error
  is \<^verbatim>\<open>CLIError\<close>.\<close>

definition failure_message :: "error \<Rightarrow> string" where
  "failure_message e =
     ''Failure to export'' @
       (case e of
          MarpCLIError m \<Rightarrow> ''. '' @ m
        | CLIError c m \<Rightarrow> '': [CLIError] '' @ m
        | Error n m \<Rightarrow> '': ['' @ n @ ''] '' @ m
        | Thrown s \<Rightarrow> ''. '' @ s)"

text \<open>\<^verbatim>\<open>try { body } finally { fin }\<close> and \<^verbatim>\<open>try { body } catch (e) { handler }\<close>, for a
  \<open>fin\<close> and a \<open>handler\<close> that do not throw.\<close>

definition try_finally ::
  "(world \<Rightarrow> (error + 'a) \<times> world) \<Rightarrow> (world \<Rightarrow> world) \<Rightarrow> world \<Rightarrow> (error + 'a) \<times> world" where
  "try_finally body fin w = (case body w of (r, w1) \<Rightarrow> (r, fin w1))"

definition try_catch ::
  "(world \<Rightarrow> (error + unit) \<times> world) \<Rightarrow> (error \<Rightarrow> world \<Rightarrow> world) \<Rightarrow> world \<Rightarrow> (error + unit) \<times> world" where
  "try_catch body handler w =
     (case body w of
        (Inl e, w1) \<Rightarrow> (Inr (), handler e w1)
      | (Inr x, w1) \<Rightarrow> (Inr x, w1))"

text \<open>A \<^verbatim>\<open>cleanup()\<close> call whose promise is not awaited: the result is dropped.\<close>

definition call_cleanup :: "host \<Rightarrow> WorkFile \<Rightarrow> world \<Rightarrow> world" where
  "call_cleanup h f w = snd (run_cleanup h (cleanup f) w)"

definition dispose :: "nat option \<Rightarrow> world \<Rightarrow> world" where
  "dispose proxyServer w =
     (case proxyServer of Some port \<Rightarrow> log_event (ProxyDisposed port) w | None \<Rightarrow> w)"

text \<open>Lines 76 to 87: the proxy server, if one is to be provided.\<close>

definition provide_proxy ::
  "host \<Rightarrow> Uri \<Rightarrow> TextDocument \<Rightarrow> world \<Rightarrow> (error + nat option) \<times> world" where
  "provide_proxy h u document w =
     (if shouldProvideWorkspaceProxyServer h u document
      then
        (case getWorkspaceFolder h (uri document) of
           Some workspaceFolder \<Rightarrow>
             (case createWorkspaceProxyServer h workspaceFolder of
                Inl e \<Rightarrow> (Inl e, w)
              | Inr port \<Rightarrow>
                  (Inr (Some port),
                   log_event (ConsoleDebug (folder_name workspaceFolder) port)
                     (log_event (ProxyCreated port) w)))
         | None \<Rightarrow> (Inr None, w))
      else (Inr None, w))"

definition baseUrl_of :: "TextDocument \<Rightarrow> nat option \<Rightarrow> string option" where
  "baseUrl_of document proxyServer =
     (case proxyServer of
        Some port \<Rightarrow> Some (''http://127.0.0.1:'' @ decimal port @ uri_path (uri document))
      | None \<Rightarrow> None)"

definition doExport :: "host \<Rightarrow> Uri \<Rightarrow> TextDocument \<Rightarrow> world \<Rightarrow> (error + unit) \<times> world" where
  "doExport h u document w =
     (case provide_proxy h u document w of
        (Inl e, w0) \<Rightarrow> (Inl e, w0)
      | (Inr proxyServer, w0) \<Rightarrow>
          (let baseUrl = baseUrl_of document proxyServer in
             try_finally
               (\<lambda>w. (case createWorkFile h document w of
                        (Inl e, w1) \<Rightarrow> (Inl e, w1)
                      | (Inr input, w1) \<Rightarrow>
                          try_finally
                            (try_catch
                               (\<lambda>w. (case createConfigFile h document (Some (proxyServer = None)) w of
                                        (Inl e, w2) \<Rightarrow> (Inl e, w2)
                                      | (Inr conf, w2) \<Rightarrow>
                                          try_finally
                                            (\<lambda>w. (case runMarpCli h
                                                          [Arr [''-c'', path conf, path input, ''-o'', fsPath u],
                                                           Opts baseUrl] w of
                                                     (Inl e, w3) \<Rightarrow> (Inl e, w3)
                                                   | (Inr _, w3) \<Rightarrow>
                                                       (Inr (), log_event (OpenExternal (fsPath u)) w3)))
                                            (call_cleanup h conf) w2))
                               (\<lambda>e. log_event (ShowErrorMessage (failure_message e))))
                            (call_cleanup h input) w1))
               (dispose proxyServer) w0))"

section \<open>Observations\<close>

text \<open>Projections of the trace: the paths of the write attempts, the paths of the unlink
  attempts, the cleanup closures that were called, and the errors given to
  \<^verbatim>\<open>console.error\<close>, each in order.\<close>

fun write_attempt :: "event \<Rightarrow> string list" where
  "write_attempt (WriteOk p c) = [p]"
| "write_attempt (WriteErr p) = [p]"
| "write_attempt _ = []"

definition write_attempts :: "event list \<Rightarrow> string list" where
  "write_attempts tr = concat (map write_attempt tr)"

fun unlink_attempt :: "event \<Rightarrow> string list" where
  "unlink_attempt (UnlinkOk p) = [p]"
| "unlink_attempt (UnlinkErr p) = [p]"
| "unlink_attempt _ = []"

definition unlink_attempts :: "event list \<Rightarrow> string list" where
  "unlink_attempts tr = concat (map unlink_attempt tr)"

fun cleanup_call :: "event \<Rightarrow> cleanup list" where
  "cleanup_call (CleanupCalled c) = [c]"
| "cleanup_call _ = []"

definition cleanup_calls :: "event list \<Rightarrow> cleanup list" where
  "cleanup_calls tr = concat (map cleanup_call tr)"

fun console_error :: "event \<Rightarrow> error list" where
  "console_error (ConsoleError e) = [e]"
| "console_error _ = []"

definition console_errors :: "event list \<Rightarrow> error list" where
  "console_errors tr = concat (map console_error tr)"

fun proxy_port :: "event \<Rightarrow> nat list" where
  "proxy_port (ProxyCreated port) = [port]"
| "proxy_port _ = []"

definition proxies_created :: "event list \<Rightarrow> nat list" where
  "proxies_created tr = concat (map proxy_port tr)"

text \<open>The files a cleanup closure unlinks, and the closures it calls, itself first.\<close>

fun targets :: "cleanup \<Rightarrow> string list" where
  "targets NoCleanup = []"
| "targets (UnlinkFile p) = [p]"
| "targets (ConfigCleanup p cs) = p # concat (map targets cs)"

fun calls :: "cleanup \<Rightarrow> cleanup list" where
  "calls NoCleanup = [NoCleanup]"
| "calls (UnlinkFile p) = [UnlinkFile p]"
| "calls (ConfigCleanup p cs) = ConfigCleanup p cs # concat (map calls cs)"

text \<open>The locations \<^verbatim>\<open>createWorkFile\<close> may write to, in the order of the specification:
  the document's directory, the root of a workspace folder on the real file system, the
  temporary directory of the operating system.\<close>

definition fallback_locations :: "host \<Rightarrow> TextDocument \<Rightarrow> world \<Rightarrow> string list" where
  "fallback_locations h doc w =
     (let name = ''.marp-vscode-tmp-'' @ nanoid_token h (issued w) in
        [join h (dirname h (fsPath (uri doc))) name]
        @ (case getWorkspaceFolder h (uri doc) of
             Some folder \<Rightarrow>
               (if scheme (folder_uri folder) = ''file''
                then [join h (fsPath (folder_uri folder)) name] else [])
           | None \<Rightarrow> [])
        @ [join h (tmpdir h) name])"

text \<open>The theme promises of a document, those that were fulfilled and the reasons of those
  that were rejected.\<close>

definition configured_themes :: "host \<Rightarrow> TextDocument \<Rightarrow> (error + Theme) list" where
  "configured_themes h doc = loadStyles h (styles_base h (uri doc))"

fun fulfilled :: "(error + Theme) list \<Rightarrow> Theme list" where
  "fulfilled [] = []"
| "fulfilled (Inl e # ps) = fulfilled ps"
| "fulfilled (Inr t # ps) = t # fulfilled ps"

fun rejected :: "(error + Theme) list \<Rightarrow> error list" where
  "rejected [] = []"
| "rejected (Inl e # ps) = e # rejected ps"
| "rejected (Inr t # ps) = rejected ps"

text \<open>The work file of a local theme.\<close>

definition local_work_file :: "Theme \<Rightarrow> WorkFile" where
  "local_work_file t = \<lparr>path = theme_path t, cleanup = NoCleanup\<rparr>"

text \<open>A member of a JSON object.\<close>

definition json_field :: "string \<Rightarrow> json \<Rightarrow> json option" where
  "json_field k j = (case j of JObject members \<Rightarrow> map_of members k | _ \<Rightarrow> None)"

text \<open>An event is quiet when it is neither the creation of a proxy server nor the write of
  a JSON file whose \<^verbatim>\<open>allowLocalFiles\<close> is not \<^verbatim>\<open>true\<close>; \<open>extends w w'\<close> says that
  \<open>w'\<close> has the trace of \<open>w\<close> followed by quiet events.\<close>

fun quiet :: "event \<Rightarrow> bool" where
  "quiet (ProxyCreated port) = False"
| "quiet (WriteOk p (Json j)) = (json_field ''allowLocalFiles'' j = Some (JBool True))"
| "quiet _ = True"

definition extends :: "world \<Rightarrow> world \<Rightarrow> bool" where
  "extends w w' = (\<exists>es. trace w' = trace w @ es \<and> list_all quiet es)"

text \<open>\<^verbatim>\<open>haystack.includes(needle)\<close>.\<close>

fun mentions :: "string \<Rightarrow> string \<Rightarrow> bool" where
  "mentions [] needle = (needle = [])"
| "mentions (c # cs) needle = (take (length needle) (c # cs) = needle \<or> mentions cs needle)"

text \<open>The JSON values written to files, in order.\<close>

fun json_written :: "event \<Rightarrow> json list" where
  "json_written (WriteOk p (Json j)) = [j]"
| "json_written _ = []"

definition json_writes :: "event list \<Rightarrow> json list" where
  "json_writes tr = concat (map json_written tr)"

text \<open>The condition for a proxy server in the words of the specification: the target
  needs a headless browser, the document is not backed by a local file, that is, it is
  virtual or untitled, and the document has a workspace folder.\<close>

definition virtual_or_untitled :: "TextDocument \<Rightarrow> bool" where
  "virtual_or_untitled document = (scheme (uri document) \<noteq> ''file'')"

definition claimed_proxy_condition :: "host \<Rightarrow> Uri \<Rightarrow> TextDocument \<Rightarrow> bool" where
  "claimed_proxy_condition h u document =
     (strip_dot (extname h (uri_path u)) \<in> set [''pdf'', ''pptx'', ''png'', ''jpg'', ''jpeg'']
      \<and> virtual_or_untitled document
      \<and> getWorkspaceFolder h (uri document) \<noteq> None)"

text \<open>The theme work files in the result of \<^verbatim>\<open>marpCoreOptionForCLI\<close>, none when it
  throws.\<close>

definition themeFiles_of :: "(error + CLIOptions) \<times> world \<Rightarrow> WorkFile list" where
  "themeFiles_of r = (case fst r of Inr opts \<Rightarrow> themeFiles opts | Inl e \<Rightarrow> [])"

text \<open>The ports of the proxy servers that were disposed, in order.  An event is silent when
  it is neither a cleanup call nor a disposal; \<open>builds w w'\<close> says that \<open>w'\<close> has the trace
  of \<open>w\<close> followed by silent events.\<close>

fun disposal :: "event \<Rightarrow> nat list" where
  "disposal (ProxyDisposed port) = [port]"
| "disposal _ = []"

definition disposals :: "event list \<Rightarrow> nat list" where
  "disposals tr = concat (map disposal tr)"

fun silent :: "event \<Rightarrow> bool" where
  "silent (CleanupCalled c) = False"
| "silent (ProxyDisposed port) = False"
| "silent _ = True"

definition builds :: "world \<Rightarrow> world \<Rightarrow> bool" where
  "builds w w' = (\<exists>es. trace w' = trace w @ es \<and> list_all silent es)"

section \<open>Example inputs\<close>

text \<open>Stand-ins for \<^verbatim>\<open>path.join\<close>, \<^verbatim>\<open>path.dirname\<close> and \<^verbatim>\<open>path.extname\<close> that agree
  with Node on the absolute POSIX paths used below.\<close>

definition simple_join :: "string \<Rightarrow> string \<Rightarrow> string" where
  "simple_join dir name = dir @ ''/'' @ name"

definition simple_dirname :: "string \<Rightarrow> string" where
  "simple_dirname p = rev (tl (dropWhile (\<lambda>c. c \<noteq> CHR ''/'') (rev p)))"

definition simple_extname :: "string \<Rightarrow> string" where
  "simple_extname p = CHR ''.'' # rev (takeWhile (\<lambda>c. c \<noteq> CHR ''.'') (rev p))"

text \<open>A Linux host on which every file operation succeeds, no theme is configured, the
  document has no workspace folder and the renderer exits with code 0.\<close>

definition example_host :: host where
  "example_host =
     \<lparr>tmpdir = ''/tmp'', join = simple_join, dirname = simple_dirname, extname = simple_extname,
      platform = ''linux'', nanoid_token = decimal,
      writeFile_error = (\<lambda>p. None), unlink_error = (\<lambda>p. None),
      getWorkspaceFolder = (\<lambda>u. None),
      config_chromePath = None, config_enableHtml = None, config_enableExtensionAttrs = None,
      config_breaks = None, preview_breaks = (\<lambda>u. None),
      loadStyles = (\<lambda>b. []), marpCli = (\<lambda>argv. Inr 0),
      createWorkspaceProxyServer = (\<lambda>folder. Inr 8080)\<rparr>"

text \<open>A fresh process: no file, \<^verbatim>\<open>CHROME_PATH\<close> not set.\<close>

definition example_world :: world where
  "example_world = \<lparr>files = Map.empty, CHROME_PATH = None, issued = 0, trace = []\<rparr>"

definition example_argv :: "arg list" where
  "example_argv = [Arr [''-c'', ''/tmp/conf.json'', ''/ws/a.md'', ''-o'', ''/ws/a.pdf''], Opts None]"

definition example_folder :: WorkspaceFolder where
  "example_folder =
     \<lparr>folder_uri = \<lparr>scheme = ''file'', uri_path = ''/ws'', fsPath = ''/ws''\<rparr>,
      folder_name = ''ws''\<rparr>"

definition saved_doc :: TextDocument where
  "saved_doc =
     \<lparr>uri = \<lparr>scheme = ''file'', uri_path = ''/ws/docs/a.md'', fsPath = ''/ws/docs/a.md''\<rparr>,
      isDirty = False, getText = ''# Slide''\<rparr>"

definition dirty_doc :: TextDocument where
  "dirty_doc = saved_doc\<lparr>isDirty := True\<rparr>"

text \<open>A host whose workspace is read-only: only the temporary directory can be written.\<close>

definition readonly_workspace_host :: host where
  "readonly_workspace_host =
     example_host
       \<lparr>writeFile_error :=
          (\<lambda>p. if take 5 p = ''/tmp/'' then None else Some (Error ''Error'' ''EACCES'')),
        getWorkspaceFolder := (\<lambda>u. Some example_folder)\<rparr>"

text \<open>A host with three configured themes: a local file, a remote theme whose fetch
  fails, and a remote theme that is fetched.\<close>

definition local_theme :: Theme where
  "local_theme = \<lparr>theme_type = File, theme_path = ''/ws/themes/a.css'', theme_css = ''''\<rparr>"

definition remote_theme :: Theme where
  "remote_theme =
     \<lparr>theme_type = Remote, theme_path = ''https://example.com/b.css'',
      theme_css = ''/* @theme b */''\<rparr>"

definition themes_host :: host where
  "themes_host =
     example_host
       \<lparr>loadStyles :=
          (\<lambda>b. [Inr local_theme, Inl (Error ''Error'' ''Request failed with status code 404''),
                Inr remote_theme])\<rparr>"

text \<open>A host with one local theme on which the config file can be written and cannot be
  unlinked.\<close>

definition local_theme_host :: host where
  "local_theme_host = example_host \<lparr>loadStyles := (\<lambda>b. [Inr local_theme])\<rparr>"

definition stuck_config_host :: host where
  "stuck_config_host =
     example_host
       \<lparr>loadStyles := (\<lambda>b. [Inr local_theme]),
        unlink_error :=
          (\<lambda>p. if p = ''/tmp/.marp-vscode-cli-conf-0.json''
               then Some (Error ''Error'' ''EPERM'') else None)\<rparr>"

text \<open>Export targets, an untitled document, a document of a virtual file system, and a
  host on which every document belongs to the workspace folder.\<close>

definition pdf_uri :: Uri where
  "pdf_uri = \<lparr>scheme = ''file'', uri_path = ''/out/a.pdf'', fsPath = ''/out/a.pdf''\<rparr>"

definition png_uri :: Uri where
  "png_uri = \<lparr>scheme = ''file'', uri_path = ''/out/a.png'', fsPath = ''/out/a.png''\<rparr>"

definition untitled_doc :: TextDocument where
  "untitled_doc =
     \<lparr>uri = \<lparr>scheme = ''untitled'', uri_path = ''Untitled-1'', fsPath = ''Untitled-1''\<rparr>,
      isDirty = True, getText = ''# Slide''\<rparr>"

definition virtual_doc :: TextDocument where
  "virtual_doc =
     \<lparr>uri = \<lparr>scheme = ''vscode-vfs'', uri_path = ''/ws/a.md'', fsPath = ''/ws/a.md''\<rparr>,
      isDirty = False, getText = ''# Slide''\<rparr>"

definition workspace_host :: host where
  "workspace_host = example_host\<lparr>getWorkspaceFolder := (\<lambda>u. Some example_folder)\<rparr>"

text \<open>A workspace of a virtual file system: its folder has the scheme of its documents,
  and a document of another scheme belongs to no folder.\<close>

definition virtual_folder :: WorkspaceFolder where
  "virtual_folder =
     \<lparr>folder_uri = \<lparr>scheme = ''vscode-vfs'', uri_path = ''/ws'', fsPath = ''/ws''\<rparr>,
      folder_name = ''ws''\<rparr>"

definition virtual_workspace_host :: host where
  "virtual_workspace_host =
     example_host
       \<lparr>getWorkspaceFolder :=
          (\<lambda>u. if scheme u = ''vscode-vfs'' then Some virtual_folder else None)\<rparr>"

text \<open>A host with one local theme on which the config file cannot be written (the
  temporary directory is full).\<close>

definition full_tmp_host :: host where
  "full_tmp_host =
     example_host
       \<lparr>loadStyles := (\<lambda>b. [Inr local_theme]),
        writeFile_error :=
          (\<lambda>p. if take 5 p = ''/tmp/'' then Some (Error ''Error'' ''ENOSPC'') else None)\<rparr>"

section \<open>Lemmas\<close>

subsection \<open>Traces and unlinking\<close>

lemma log_event_simps [simp]:
  "files (log_event e w) = files w"
  "trace (log_event e w) = trace w @ [e]"
  "issued (log_event e w) = issued w"
  "CHROME_PATH (log_event e w) = CHROME_PATH w"
  by (simp_all add: log_event_def)

lemma write_attempts_simps [simp]:
  "write_attempts [] = []"
  "write_attempts (e # es) = write_attempt e @ write_attempts es"
  "write_attempts (tr @ tr') = write_attempts tr @ write_attempts tr'"
  by (simp_all add: write_attempts_def)

lemma unlink_existing:
  "unlink_error h p = None \<Longrightarrow> p \<in> dom (files w) \<Longrightarrow>
   files (snd (promiseUnlink h p w)) = (files w)(p := None) \<and> fst (promiseUnlink h p w) = Inr ()"
  by (auto simp add: promiseUnlink_def)

lemma unlink_attempts_simps [simp]:
  "unlink_attempts [] = []"
  "unlink_attempts (e # es) = unlink_attempt e @ unlink_attempts es"
  "unlink_attempts (tr @ tr') = unlink_attempts tr @ unlink_attempts tr'"
  by (simp_all add: unlink_attempts_def)

lemma cleanup_calls_simps [simp]:
  "cleanup_calls [] = []"
  "cleanup_calls (e # es) = cleanup_call e @ cleanup_calls es"
  "cleanup_calls (tr @ tr') = cleanup_calls tr @ cleanup_calls tr'"
  by (simp_all add: cleanup_calls_def)

lemma console_errors_simps [simp]:
  "console_errors [] = []"
  "console_errors (e # es) = console_error e @ console_errors es"
  "console_errors (tr @ tr') = console_errors tr @ console_errors tr'"
  by (simp_all add: console_errors_def)

lemma promiseUnlink_trace:
  "unlink_attempts (trace (snd (promiseUnlink h p w))) = unlink_attempts (trace w) @ [p]"
  "cleanup_calls (trace (snd (promiseUnlink h p w))) = cleanup_calls (trace w)"
  by (simp_all add: promiseUnlink_def split: option.splits)

lemma promiseUnlink_dom:
  "dom (files (snd (promiseUnlink h p w))) \<subseteq> dom (files w)"
  by (auto simp add: promiseUnlink_def split: option.splits if_splits)

lemma promiseUnlink_gone:
  "unlink_error h p = None \<Longrightarrow> p \<notin> dom (files (snd (promiseUnlink h p w)))"
  by (auto simp add: promiseUnlink_def split: option.splits if_splits)

subsection \<open>Cleanup closures\<close>

text \<open>A cleanup attempts every unlink and calls every nested closure, whatever fails;
  it never creates a file, and a file whose unlink is not refused is gone.\<close>

lemma run_cleanups_unlink_attempts:
  assumes "\<And>c w. c \<in> set cs \<Longrightarrow>
     unlink_attempts (trace (snd (run_cleanup h c w))) = unlink_attempts (trace w) @ targets c"
  shows "unlink_attempts (trace (snd (run_cleanups h cs w))) =
     unlink_attempts (trace w) @ concat (map targets cs)"
  using assms by (induction cs arbitrary: w) (simp_all add: case_prod_beta)

lemma run_cleanup_unlink_attempts:
  "unlink_attempts (trace (snd (run_cleanup h c w))) = unlink_attempts (trace w) @ targets c"
proof (induction c arbitrary: w)
  case (ConfigCleanup p cs)
  then show ?case
    by (simp add: case_prod_beta run_cleanups_unlink_attempts promiseUnlink_trace)
qed (simp_all add: promiseUnlink_trace)

lemma run_cleanups_calls:
  assumes "\<And>c w. c \<in> set cs \<Longrightarrow>
     cleanup_calls (trace (snd (run_cleanup h c w))) = cleanup_calls (trace w) @ calls c"
  shows "cleanup_calls (trace (snd (run_cleanups h cs w))) =
     cleanup_calls (trace w) @ concat (map calls cs)"
  using assms by (induction cs arbitrary: w) (simp_all add: case_prod_beta)

lemma run_cleanup_calls:
  "cleanup_calls (trace (snd (run_cleanup h c w))) = cleanup_calls (trace w) @ calls c"
proof (induction c arbitrary: w)
  case (ConfigCleanup p cs)
  then show ?case
    by (simp add: case_prod_beta run_cleanups_calls promiseUnlink_trace)
qed (simp_all add: promiseUnlink_trace)

lemma run_cleanups_dom:
  assumes "\<And>c w. c \<in> set cs \<Longrightarrow> dom (files (snd (run_cleanup h c w))) \<subseteq> dom (files w)"
  shows "dom (files (snd (run_cleanups h cs w))) \<subseteq> dom (files w)"
  using assms
proof (induction cs arbitrary: w)
  case (Cons c cs)
  have "dom (files (snd (run_cleanups h cs (snd (run_cleanup h c w)))))
          \<subseteq> dom (files (snd (run_cleanup h c w)))"
    using Cons by simp
  also have "\<dots> \<subseteq> dom (files w)" using Cons.prems by simp
  finally show ?case by (simp add: case_prod_beta)
qed simp

lemma run_cleanup_dom:
  "dom (files (snd (run_cleanup h c w))) \<subseteq> dom (files w)"
proof (induction c arbitrary: w)
  case (ConfigCleanup p cs)
  have "dom (files (snd (run_cleanups h cs
          (snd (promiseUnlink h p (log_event (CleanupCalled (ConfigCleanup p cs)) w))))))
        \<subseteq> dom (files (snd (promiseUnlink h p (log_event (CleanupCalled (ConfigCleanup p cs)) w))))"
    using ConfigCleanup by (intro run_cleanups_dom) simp
  also have "\<dots> \<subseteq> dom (files w)"
    using promiseUnlink_dom[of h p "log_event (CleanupCalled (ConfigCleanup p cs)) w"] by simp
  finally show ?case by (simp add: case_prod_beta)
next
  case (UnlinkFile p)
  show ?case using promiseUnlink_dom[of h p "log_event (CleanupCalled (UnlinkFile p)) w"] by simp
qed simp

lemma run_cleanups_dom_all:
  "dom (files (snd (run_cleanups h cs w))) \<subseteq> dom (files w)"
  by (rule run_cleanups_dom) (rule run_cleanup_dom)

lemma run_cleanups_gone:
  assumes "\<And>c w. c \<in> set cs \<Longrightarrow> p \<in> set (targets c) \<Longrightarrow>
             p \<notin> dom (files (snd (run_cleanup h c w)))"
    and "p \<in> set (concat (map targets cs))"
  shows "p \<notin> dom (files (snd (run_cleanups h cs w)))"
  using assms
proof (induction cs arbitrary: w)
  case (Cons c cs)
  show ?case
  proof (cases "p \<in> set (concat (map targets cs))")
    case True
    then show ?thesis using Cons by (simp add: case_prod_beta)
  next
    case False
    then have "p \<in> set (targets c)" using Cons.prems(2) by simp
    then have "p \<notin> dom (files (snd (run_cleanup h c w)))" using Cons.prems(1) by simp
    then show ?thesis
      using run_cleanups_dom_all[of h cs "snd (run_cleanup h c w)"]
      by (auto simp add: case_prod_beta)
  qed
qed simp

lemma run_cleanup_gone:
  "unlink_error h p = None \<Longrightarrow> p \<in> set (targets c) \<Longrightarrow>
   p \<notin> dom (files (snd (run_cleanup h c w)))"
proof (induction c arbitrary: w)
  case (ConfigCleanup q cs)
  let ?w1 = "snd (promiseUnlink h q (log_event (CleanupCalled (ConfigCleanup q cs)) w))"
  show ?case
  proof (cases "p \<in> set (concat (map targets cs))")
    case True
    have "p \<notin> dom (files (snd (run_cleanups h cs ?w1)))"
      using ConfigCleanup True by (intro run_cleanups_gone) auto
    then show ?thesis by (simp add: case_prod_beta)
  next
    case False
    then have "p = q" using ConfigCleanup.prems by simp
    then have "p \<notin> dom (files ?w1)" using promiseUnlink_gone ConfigCleanup.prems(1) by simp
    then show ?thesis
      using run_cleanups_dom_all[of h cs ?w1] by (auto simp add: case_prod_beta)
  qed
next
  case (UnlinkFile q)
  then show ?case using promiseUnlink_gone by simp
qed simp

subsection \<open>Theme promises\<close>

lemma theme_promise_rejected:
  "theme_promise h (Inl e) w = (Inr None, log_event (ConsoleError e) w)"
  by (simp add: theme_promise_def)

lemma theme_promise_file:
  "theme_type t = File \<Longrightarrow>
   theme_promise h (Inr t) w = (Inr (Some \<lparr>path = theme_path t, cleanup = NoCleanup\<rparr>), w)"
  by (simp add: theme_promise_def theme_fulfilled_def)

lemma theme_promise_remote:
  "theme_type t \<noteq> File \<Longrightarrow> theme_promise h (Inr t) w = (Inl nanoid_type_error, w)"
proof -
  assume "theme_type t \<noteq> File"
  then have "theme_type t = Remote" by (cases "theme_type t") simp_all
  then show ?thesis
    by (simp add: theme_promise_def theme_fulfilled_def default_import_nanoid_def)
qed

lemma fulfilled_rejected_length: "length (fulfilled ps) + length (rejected ps) = length ps"
  by (induction ps rule: fulfilled.induct) simp_all

text \<open>When every fetched theme is a local file, no promise of the list throws: each
  fulfilled promise gives its work file, each rejected one is logged, and no file and no
  token is touched.\<close>

lemma themes_local:
  assumes "\<And>t. t \<in> set (fulfilled ps) \<Longrightarrow> theme_type t = File"
  shows "\<exists>rs. fst (promise_all (map (theme_promise h) ps) w) = Inr rs
           \<and> List.map_filter id rs = map local_work_file (fulfilled ps)
           \<and> console_errors (trace (snd (promise_all (map (theme_promise h) ps) w))) =
               console_errors (trace w) @ rejected ps
           \<and> files (snd (promise_all (map (theme_promise h) ps) w)) = files w
           \<and> issued (snd (promise_all (map (theme_promise h) ps) w)) = issued w"
  using assms
proof (induction ps arbitrary: w)
  case Nil
  show ?case by (simp add: List.map_filter_simps)
next
  case (Cons p ps)
  show ?case
  proof (cases p)
    case (Inl e)
    let ?w1 = "log_event (ConsoleError e) w"
    have "\<And>t. t \<in> set (fulfilled ps) \<Longrightarrow> theme_type t = File"
      using Cons.prems Inl by simp
    from Cons.IH[OF this, of ?w1] obtain rs where
      "fst (promise_all (map (theme_promise h) ps) ?w1) = Inr rs"
      "List.map_filter id rs = map local_work_file (fulfilled ps)"
      "console_errors (trace (snd (promise_all (map (theme_promise h) ps) ?w1))) =
         console_errors (trace ?w1) @ rejected ps"
      "files (snd (promise_all (map (theme_promise h) ps) ?w1)) = files ?w1"
      "issued (snd (promise_all (map (theme_promise h) ps) ?w1)) = issued ?w1"
      by blast
    then show ?thesis
      by (simp add: Inl theme_promise_rejected case_prod_beta List.map_filter_simps id_def)
  next
    case (Inr t)
    have local: "theme_type t = File" using Cons.prems Inr by simp
    have "\<And>t. t \<in> set (fulfilled ps) \<Longrightarrow> theme_type t = File"
      using Cons.prems Inr by simp
    from Cons.IH[OF this, of w] obtain rs where
      "fst (promise_all (map (theme_promise h) ps) w) = Inr rs"
      "List.map_filter id rs = map local_work_file (fulfilled ps)"
      "console_errors (trace (snd (promise_all (map (theme_promise h) ps) w))) =
         console_errors (trace w) @ rejected ps"
      "files (snd (promise_all (map (theme_promise h) ps) w)) = files w"
      "issued (snd (promise_all (map (theme_promise h) ps) w)) = issued w"
      by blast
    then show ?thesis
      using local
      by (simp add: Inr theme_promise_file case_prod_beta List.map_filter_simps id_def
          local_work_file_def)
  qed
qed

text \<open>A theme promise throws only the error of the default import, and the list throws
  it as soon as one fetched theme is remote.\<close>

lemma theme_promise_throws:
  "fst (theme_promise h p w) = Inl e \<Longrightarrow> e = nanoid_type_error"
  by (auto simp add: theme_promise_def theme_fulfilled_def default_import_nanoid_def
      split: sum.splits if_splits)

lemma promise_all_themes_throw:
  "fst (promise_all (map (theme_promise h) ps) w) = Inl e \<Longrightarrow> e = nanoid_type_error"
proof (induction ps arbitrary: w)
  case Nil
  then show ?case by simp
next
  case (Cons p ps)
  show ?case
  proof (cases "fst (theme_promise h p w)")
    case (Inl e')
    then have "e = e'" using Cons.prems by (simp add: case_prod_beta)
    then show ?thesis using Inl theme_promise_throws by simp
  next
    case (Inr x)
    then have "fst (promise_all (map (theme_promise h) ps) (snd (theme_promise h p w))) = Inl e"
      using Cons.prems by (simp add: case_prod_beta split: sum.splits)
    then show ?thesis by (rule Cons.IH)
  qed
qed

lemma themes_remote_throw:
  assumes "t \<in> set (fulfilled ps)" and "theme_type t \<noteq> File"
  shows "fst (promise_all (map (theme_promise h) ps) w) = Inl nanoid_type_error"
  using assms
proof (induction ps arbitrary: w)
  case Nil
  then show ?case by simp
next
  case (Cons p ps)
  show ?case
  proof (cases "fst (theme_promise h p w)")
    case (Inl e)
    then show ?thesis using theme_promise_throws[OF Inl] by (simp add: case_prod_beta)
  next
    case (Inr x)
    have "p \<noteq> Inr t"
      using Inr Cons.prems(2) by (auto simp add: theme_promise_remote)
    then have "t \<in> set (fulfilled ps)"
      using Cons.prems(1) by (cases p) auto
    then have "fst (promise_all (map (theme_promise h) ps) (snd (theme_promise h p w))) =
                 Inl nanoid_type_error"
      using Cons.prems(2) by (rule Cons.IH)
    then show ?thesis using Inr by (simp add: case_prod_beta)
  qed
qed

subsection \<open>Steps that emit quiet events only\<close>

lemma extends_refl [simp]: "extends w w"
  by (simp add: extends_def)

lemma extends_log: "quiet e \<Longrightarrow> extends w w1 \<Longrightarrow> extends w (log_event e w1)"
  by (auto simp add: extends_def)

lemma extends_same_trace: "trace w2 = trace w1 \<Longrightarrow> extends w w1 \<Longrightarrow> extends w w2"
  by (simp add: extends_def)

lemma stringify_allows: "json_field ''allowLocalFiles'' (stringify opts) = Some (JBool (allowLocalFiles opts))"
  by (simp add: json_field_def stringify_def)

lemma promiseWriteFile_extends:
  assumes "quiet (WriteOk p c)" and "extends w0 w"
  shows "extends w0 (snd (promiseWriteFile h p c w))"
  using assms
  by (auto simp add: promiseWriteFile_def intro!: extends_log elim: extends_same_trace[rotated]
      split: option.splits)

lemma promiseUnlink_extends:
  assumes "extends w0 w"
  shows "extends w0 (snd (promiseUnlink h p w))"
  using assms
  by (auto simp add: promiseUnlink_def intro!: extends_log elim: extends_same_trace[rotated]
      split: option.splits)

lemma run_cleanups_extends:
  assumes "\<And>c w. c \<in> set cs \<Longrightarrow> extends w0 w \<Longrightarrow> extends w0 (snd (run_cleanup h c w))"
    and "extends w0 w"
  shows "extends w0 (snd (run_cleanups h cs w))"
  using assms by (induction cs arbitrary: w) (simp_all add: case_prod_beta)

lemma run_cleanup_extends:
  "extends w0 w \<Longrightarrow> extends w0 (snd (run_cleanup h c w))"
proof (induction c arbitrary: w)
  case (ConfigCleanup p cs)
  then show ?case
    by (simp add: case_prod_beta run_cleanups_extends promiseUnlink_extends extends_log)
qed (simp_all add: promiseUnlink_extends extends_log)

lemma nanoid_extends: "extends w0 w \<Longrightarrow> extends w0 (snd (nanoid h w))"
  by (auto simp add: nanoid_def elim: extends_same_trace[rotated])

lemma createWorkFile_extends:
  assumes "extends w0 w"
  shows "extends w0 (snd (createWorkFile h doc w))"
  using assms
  by (simp add: createWorkFile_def Let_def case_prod_beta nanoid_extends promiseWriteFile_extends
      split: sum.splits option.splits)

lemma theme_promise_extends:
  assumes "extends w0 w"
  shows "extends w0 (snd (theme_promise h p w))"
  using assms
  by (simp add: theme_promise_def theme_fulfilled_def default_import_nanoid_def extends_log
      split: sum.splits)

lemma promise_all_extends:
  assumes "\<And>f w. f \<in> set fs \<Longrightarrow> extends w0 w \<Longrightarrow> extends w0 (snd (f w))"
    and "extends w0 w"
  shows "extends w0 (snd (promise_all fs w))"
  using assms by (induction fs arbitrary: w) (simp_all add: case_prod_beta)

lemma marpCoreOptionForCLI_extends:
  assumes "extends w0 w"
  shows "extends w0 (snd (marpCoreOptionForCLI h doc w))"
proof -
  have "extends w0 (snd (promise_all (map (theme_promise h) (loadStyles h (styles_base h (uri doc)))) w))"
    using assms by (intro promise_all_extends) (auto simp add: theme_promise_extends)
  then show ?thesis
    by (simp add: marpCoreOptionForCLI_def Let_def case_prod_beta split: sum.splits)
qed

lemma marpCoreOptionForCLI_allowLocalFiles:
  "fst (marpCoreOptionForCLI h doc w) = Inr opts \<Longrightarrow> allowLocalFiles opts = True"
  by (auto simp add: marpCoreOptionForCLI_def Let_def case_prod_beta split: sum.splits)

lemma createConfigFile_extends:
  assumes "extends w0 w"
  shows "extends w0 (snd (createConfigFile h target extra w))"
  using assms
  by (auto simp add: createConfigFile_def Let_def case_prod_beta nanoid_extends
      marpCoreOptionForCLI_extends promiseWriteFile_extends stringify_allows
      marpCoreOptionForCLI_allowLocalFiles split: sum.splits)

lemma runMarpCli_extends:
  assumes "extends w0 w"
  shows "extends w0 (snd (runMarpCli h argv w))"
  using assms
  by (auto simp add: runMarpCli_def Let_def extends_def split: sum.splits)

lemma call_cleanup_extends: "extends w0 w \<Longrightarrow> extends w0 (call_cleanup h f w)"
  by (simp add: call_cleanup_def run_cleanup_extends)

lemma dispose_extends: "extends w0 w \<Longrightarrow> extends w0 (dispose proxyServer w)"
  by (simp add: dispose_def extends_log split: option.splits)

lemma doExport_after_proxy:
  assumes "provide_proxy h u document w = (Inr proxyServer, w0)"
  shows "extends w0 (snd (doExport h u document w))"
  using assms
  by (simp add: doExport_def Let_def try_finally_def try_catch_def case_prod_beta
      createWorkFile_extends createConfigFile_extends runMarpCli_extends call_cleanup_extends
      dispose_extends extends_log
      split: sum.splits)

subsection \<open>The environment variable\<close>

lemma runMarpCli_restores_set_env:
  "CHROME_PATH w = Some v \<Longrightarrow> CHROME_PATH (snd (runMarpCli h argv w)) = Some v"
  by (simp add: runMarpCli_def Let_def env_assign_def split: sum.splits)

subsection \<open>Theme work files\<close>

lemma marpCoreOptionForCLI_local:
  assumes "\<And>t. t \<in> set (fulfilled (configured_themes h doc)) \<Longrightarrow> theme_type t = File"
  shows "\<exists>opts w'. marpCoreOptionForCLI h doc w = (Inr opts, w')
           \<and> themeFiles opts = map local_work_file (fulfilled (configured_themes h doc))
           \<and> themeSet opts = map path (themeFiles opts)
           \<and> console_errors (trace w') =
               console_errors (trace w) @ rejected (configured_themes h doc)
           \<and> files w' = files w"
proof -
  let ?run = "promise_all (map (theme_promise h) (configured_themes h doc)) w"
  from themes_local[where ps = "configured_themes h doc" and h = h and w = w, OF assms] obtain rs where
    rs: "fst ?run = Inr rs"
      "List.map_filter id rs = map local_work_file (fulfilled (configured_themes h doc))"
      "console_errors (trace (snd ?run)) =
         console_errors (trace w) @ rejected (configured_themes h doc)"
      "files (snd ?run) = files w"
    by blast
  have run: "?run = (Inr rs, snd ?run)"
    using rs(1) by (simp add: prod_eq_iff)
  have "marpCoreOptionForCLI h doc w =
          (Inr \<lparr>allowLocalFiles = True, html = or_undefined (config_enableHtml h),
                extensionAttrs = or_undefined (config_enableExtensionAttrs h),
                markdown_breaks = breaks h (preview_breaks h (uri doc) = Some True),
                themeSet = map path (List.map_filter id rs),
                themeFiles = List.map_filter id rs\<rparr>, snd ?run)"
    unfolding marpCoreOptionForCLI_def configured_themes_def[symmetric]
    by (subst run) (simp add: Let_def)
  then show ?thesis using rs by simp
qed

lemma marpCoreOptionForCLI_remote_throws:
  assumes "t \<in> set (fulfilled (configured_themes h doc))" and "theme_type t \<noteq> File"
  shows "fst (marpCoreOptionForCLI h doc w) = Inl nanoid_type_error"
  using themes_remote_throw[OF assms, of h w]
  by (simp add: marpCoreOptionForCLI_def configured_themes_def Let_def case_prod_beta
      split: sum.splits)

text \<open>With exactly one rejected fetch and local themes otherwise, the resolution gives
  N - 1 work files, does not throw and logs the rejection.\<close>

lemma marpCoreOptionForCLI_one_rejected_local:
  assumes "length (rejected (configured_themes h doc)) = 1"
    and "\<And>t. t \<in> set (fulfilled (configured_themes h doc)) \<Longrightarrow> theme_type t = File"
  shows "\<exists>opts w'. marpCoreOptionForCLI h doc w = (Inr opts, w')
           \<and> length (themeFiles opts) = length (configured_themes h doc) - 1
           \<and> console_errors (trace w') =
               console_errors (trace w) @ rejected (configured_themes h doc)"
proof -
  from marpCoreOptionForCLI_local[where h = h and doc = doc and w = w, OF assms(2)] obtain opts w' where
    run: "marpCoreOptionForCLI h doc w = (Inr opts, w')"
    and tf: "themeFiles opts = map local_work_file (fulfilled (configured_themes h doc))"
    and errs: "console_errors (trace w') =
                 console_errors (trace w) @ rejected (configured_themes h doc)"
    by blast
  have "length (themeFiles opts) = length (configured_themes h doc) - 1"
    using fulfilled_rejected_length[of "configured_themes h doc"] assms(1) by (simp add: tf)
  then show ?thesis using run errs by blast
qed

lemma theme_promise_flat:
  "fst (theme_promise h p w) = Inr (Some f) \<Longrightarrow>
     cleanup f = NoCleanup \<or> cleanup f = UnlinkFile (path f)"
  by (auto simp add: theme_promise_def theme_fulfilled_def default_import_nanoid_def
      split: sum.splits if_splits)

lemma promise_all_theme_flat:
  "fst (promise_all (map (theme_promise h) ps) w) = Inr rs \<Longrightarrow> Some f \<in> set rs \<Longrightarrow>
     cleanup f = NoCleanup \<or> cleanup f = UnlinkFile (path f)"
proof (induction ps arbitrary: w rs)
  case Nil
  then show ?case by simp
next
  case (Cons p ps)
  from Cons.prems(1) obtain x xs where
    x: "fst (theme_promise h p w) = Inr x"
    and xs: "fst (promise_all (map (theme_promise h) ps) (snd (theme_promise h p w))) = Inr xs"
    and rs: "rs = x # xs"
    by (auto simp add: case_prod_beta split: sum.splits)
  show ?case
  proof (cases "x = Some f")
    case True
    then show ?thesis using x theme_promise_flat by simp
  next
    case False
    then have "Some f \<in> set xs" using Cons.prems(2) rs by auto
    then show ?thesis using Cons.IH[OF xs] by simp
  qed
qed

lemma map_filter_id_set: "set (List.map_filter id rs) = {f. Some f \<in> set rs}"
  by (induction rs) (auto simp add: List.map_filter_simps split: option.splits)

lemma marpCoreOptionForCLI_flat:
  assumes "fst (marpCoreOptionForCLI h doc w) = Inr opts" and "f \<in> set (themeFiles opts)"
  shows "cleanup f = NoCleanup \<or> cleanup f = UnlinkFile (path f)"
proof -
  from assms(1) obtain rs where
    rs: "fst (promise_all (map (theme_promise h) (loadStyles h (styles_base h (uri doc)))) w) = Inr rs"
    and tf: "themeFiles opts = List.map_filter id rs"
    by (auto simp add: marpCoreOptionForCLI_def Let_def case_prod_beta split: sum.splits)
  have "Some f \<in> set rs" using assms(2) tf by (simp add: map_filter_id_set)
  then show ?thesis using rs by (rule promise_all_theme_flat[rotated])
qed

lemma flat_targets:
  assumes "\<And>f. f \<in> set fs \<Longrightarrow> cleanup f = NoCleanup \<or> cleanup f = UnlinkFile (path f)"
  shows "concat (map targets (map cleanup fs)) =
           map path (filter (\<lambda>f. cleanup f \<noteq> NoCleanup) fs)"
  using assms
proof (induction fs)
  case Nil
  show ?case by simp
next
  case (Cons f fs)
  have head: "cleanup f = NoCleanup \<or> cleanup f = UnlinkFile (path f)"
    using Cons.prems by simp
  have tail: "concat (map targets (map cleanup fs)) =
                map path (filter (\<lambda>f. cleanup f \<noteq> NoCleanup) fs)"
    using Cons by simp
  from head show ?case using tail by (elim disjE) simp_all
qed

lemma flat_calls:
  assumes "\<And>f. f \<in> set fs \<Longrightarrow> cleanup f = NoCleanup \<or> cleanup f = UnlinkFile (path f)"
  shows "concat (map calls (map cleanup fs)) = map cleanup fs"
  using assms
proof (induction fs)
  case Nil
  show ?case by simp
next
  case (Cons f fs)
  have head: "cleanup f = NoCleanup \<or> cleanup f = UnlinkFile (path f)"
    using Cons.prems by simp
  have tail: "concat (map calls (map cleanup fs)) = map cleanup fs"
    using Cons by simp
  from head show ?case using tail by (elim disjE) simp_all
qed

subsection \<open>The config file\<close>

lemma createConfigFile_result:
  assumes "createConfigFile h target extra w = (Inr conf, w1)"
  shows "\<exists>opts. fst (marpCoreOptionForCLI h target (snd (nanoid h w))) = Inr opts
           \<and> cleanup conf = ConfigCleanup (path conf) (map cleanup (themeFiles opts))
           \<and> files w1 (path conf) = Some (Json (stringify opts))"
  using assms
  by (auto simp add: createConfigFile_def Let_def case_prod_beta promiseWriteFile_def
      split: sum.splits option.splits)

subsection \<open>Evaluation on the example inputs\<close>

lemmas example_defs =
  example_host_def example_world_def example_folder_def saved_doc_def dirty_doc_def
  simple_join_def simple_dirname_def simple_extname_def decimal.simps digit_def

lemma stuck_config_host_options:
  "fst (marpCoreOptionForCLI stuck_config_host saved_doc (snd (nanoid stuck_config_host example_world))) =
     Inr \<lparr>allowLocalFiles = True, html = None, extensionAttrs = None, markdown_breaks = True,
          themeSet = [''/ws/themes/a.css''],
          themeFiles = [\<lparr>path = ''/ws/themes/a.css'', cleanup = NoCleanup\<rparr>]\<rparr>"
  by (simp add: marpCoreOptionForCLI_def stuck_config_host_def example_defs
      local_theme_def theme_promise_def theme_fulfilled_def
      nanoid_def Let_def or_undefined_def breaks_def List.map_filter_simps)

lemma stuck_config_host_conf:
  "fst (createConfigFile stuck_config_host saved_doc None example_world) =
     Inr \<lparr>path = ''/tmp/.marp-vscode-cli-conf-0.json'',
          cleanup = ConfigCleanup ''/tmp/.marp-vscode-cli-conf-0.json'' [NoCleanup]\<rparr>"
  by (simp add: createConfigFile_def marpCoreOptionForCLI_def stuck_config_host_def example_defs
      local_theme_def theme_promise_def theme_fulfilled_def
      promiseWriteFile_def nanoid_def Let_def or_undefined_def breaks_def
      List.map_filter_simps)

lemma local_theme_host_conf:
  "fst (createConfigFile local_theme_host saved_doc None example_world) =
     Inr \<lparr>path = ''/tmp/.marp-vscode-cli-conf-0.json'',
          cleanup = ConfigCleanup ''/tmp/.marp-vscode-cli-conf-0.json'' [NoCleanup]\<rparr>"
  by (simp add: createConfigFile_def marpCoreOptionForCLI_def local_theme_host_def example_defs
      local_theme_def theme_promise_def theme_fulfilled_def
      promiseWriteFile_def nanoid_def Let_def or_undefined_def breaks_def
      List.map_filter_simps)

subsection \<open>The proxy decision and the JSON files of an export\<close>

lemma json_writes_simps [simp]:
  "json_writes [] = []"
  "json_writes (e # es) = json_written e @ json_writes es"
  "json_writes (tr @ tr') = json_writes tr @ json_writes tr'"
  by (simp_all add: json_writes_def)

lemma proxies_created_simps [simp]:
  "proxies_created [] = []"
  "proxies_created (e # es) = proxy_port e @ proxies_created es"
  "proxies_created (tr @ tr') = proxies_created tr @ proxies_created tr'"
  by (simp_all add: proxies_created_def)

lemma quiet_no_proxy: "list_all quiet es \<Longrightarrow> proxies_created es = []"
proof (induction es)
  case (Cons e es)
  then show ?case by (cases e) simp_all
qed simp

lemma quiet_json_writes:
  "list_all quiet es \<Longrightarrow>
     list_all (\<lambda>j. json_field ''allowLocalFiles'' j = Some (JBool True)) (json_writes es)"
proof (induction es)
  case (Cons e es)
  then show ?case
  proof (cases e)
    case (WriteOk p c)
    then show ?thesis using Cons by (cases c) simp_all
  qed simp_all
qed simp

lemma extends_proxies: "extends w0 w' \<Longrightarrow> proxies_created (trace w') = proxies_created (trace w0)"
  by (auto simp add: extends_def quiet_no_proxy)

lemma provide_proxy_proxies:
  "proxies_created (trace (snd (provide_proxy h u document w))) =
     proxies_created (trace w) @
       (if strip_dot (extname h (uri_path u)) \<in> set [''pdf'', ''pptx'', ''png'', ''jpg'', ''jpeg'']
           \<and> scheme (uri document) \<noteq> ''file'' \<and> scheme (uri document) \<noteq> ''untitled''
        then (case getWorkspaceFolder h (uri document) of
                Some folder \<Rightarrow>
                  (case createWorkspaceProxyServer h folder of
                     Inr port \<Rightarrow> [port]
                   | Inl e \<Rightarrow> [])
              | None \<Rightarrow> [])
        else [])"
  by (simp add: provide_proxy_def shouldProvideWorkspaceProxyServer_def Let_def
      chromiumRequiredExtensions_def split: option.splits sum.splits)

lemma provide_proxy_json:
  "json_writes (trace (snd (provide_proxy h u document w))) = json_writes (trace w)"
  by (simp add: provide_proxy_def split: option.splits sum.splits)

lemma doExport_proxies:
  "proxies_created (trace (snd (doExport h u document w))) =
     proxies_created (trace w) @
       (if strip_dot (extname h (uri_path u)) \<in> set [''pdf'', ''pptx'', ''png'', ''jpg'', ''jpeg'']
           \<and> scheme (uri document) \<noteq> ''file'' \<and> scheme (uri document) \<noteq> ''untitled''
        then (case getWorkspaceFolder h (uri document) of
                Some folder \<Rightarrow>
                  (case createWorkspaceProxyServer h folder of
                     Inr port \<Rightarrow> [port]
                   | Inl e \<Rightarrow> [])
              | None \<Rightarrow> [])
        else [])"
proof (cases "fst (provide_proxy h u document w)")
  case (Inl e)
  then have "doExport h u document w = (Inl e, snd (provide_proxy h u document w))"
    by (simp add: doExport_def case_prod_beta)
  then show ?thesis using provide_proxy_proxies[of h u document w] by simp
next
  case (Inr proxyServer)
  then have "provide_proxy h u document w = (Inr proxyServer, snd (provide_proxy h u document w))"
    by (simp add: prod_eq_iff)
  then have "extends (snd (provide_proxy h u document w)) (snd (doExport h u document w))"
    by (rule doExport_after_proxy)
  then show ?thesis using provide_proxy_proxies[of h u document w] by (simp add: extends_proxies)
qed

lemmas model_defs =
  doExport_def provide_proxy_def shouldProvideWorkspaceProxyServer_def baseUrl_of_def
  try_finally_def try_catch_def call_cleanup_def dispose_def failure_message_def
  createWorkFile_def createCleanup_def createConfigFile_def marpCoreOptionForCLI_def
  theme_promise_def theme_fulfilled_def default_import_nanoid_def nanoid_type_error_def
  theme_tmp_def styles_base_def baseFolder_def
  stringify_def or_undefined_def breaks_def promiseWriteFile_def promiseUnlink_def nanoid_def
  runMarpCli_def rethrown_def env_assign_def js_or_def exit_code_message_def
  chromiumRequiredExtensions_def strip_dot_def first_error_def Let_def
  List.map_filter_simps

lemma createConfigFile_extra: "createConfigFile h target extra w = createConfigFile h target None w"
  by (simp add: createConfigFile_def)

lemma doExport_json_writes:
  "\<exists>js. json_writes (trace (snd (doExport h u document w))) = json_writes (trace w) @ js
         \<and> list_all (\<lambda>j. json_field ''allowLocalFiles'' j = Some (JBool True)) js"
proof (cases "fst (provide_proxy h u document w)")
  case (Inl e)
  then have "doExport h u document w = (Inl e, snd (provide_proxy h u document w))"
    by (simp add: doExport_def case_prod_beta)
  then show ?thesis using provide_proxy_json[of h u document w] by simp
next
  case (Inr proxyServer)
  then have "provide_proxy h u document w = (Inr proxyServer, snd (provide_proxy h u document w))"
    by (simp add: prod_eq_iff)
  then have "extends (snd (provide_proxy h u document w)) (snd (doExport h u document w))"
    by (rule doExport_after_proxy)
  then obtain es where
    es: "trace (snd (doExport h u document w)) = trace (snd (provide_proxy h u document w)) @ es"
      "list_all quiet es"
    by (auto simp add: extends_def)
  show ?thesis
    using es provide_proxy_json[of h u document w] quiet_json_writes[of es] by simp
qed

text \<open>The five ways through \<^verbatim>\<open>doExport\<close>: the proxy server cannot be created, the
  input cannot be materialized, the config build throws, the renderer throws, the renderer
  returns.\<close>

subsection \<open>Ways through doExport\<close>

lemma doExport_proxy_throws:
  assumes "provide_proxy h u document w = (Inl e, w0)"
  shows "doExport h u document w = (Inl e, w0)"
  using assms by (simp add: doExport_def)

lemma doExport_input_throws:
  assumes "provide_proxy h u document w = (Inr proxyServer, w0)"
    and "createWorkFile h document w0 = (Inl e, w1)"
  shows "doExport h u document w = (Inl e, dispose proxyServer w1)"
  using assms by (simp add: doExport_def try_finally_def)

lemma doExport_config_throws:
  assumes "provide_proxy h u document w = (Inr proxyServer, w0)"
    and "createWorkFile h document w0 = (Inr input, w1)"
    and "createConfigFile h document (Some (proxyServer = None)) w1 = (Inl e, w2)"
  shows "doExport h u document w =
           (Inr (), dispose proxyServer
                      (call_cleanup h input (log_event (ShowErrorMessage (failure_message e)) w2)))"
  using assms by (simp add: doExport_def try_finally_def try_catch_def)

lemma doExport_renderer_throws:
  assumes "provide_proxy h u document w = (Inr proxyServer, w0)"
    and "createWorkFile h document w0 = (Inr input, w1)"
    and "createConfigFile h document (Some (proxyServer = None)) w1 = (Inr conf, w2)"
    and "runMarpCli h [Arr [''-c'', path conf, path input, ''-o'', fsPath u],
                       Opts (baseUrl_of document proxyServer)] w2 = (Inl e, w3)"
  shows "doExport h u document w =
           (Inr (), dispose proxyServer
                      (call_cleanup h input
                         (log_event (ShowErrorMessage (failure_message e))
                            (call_cleanup h conf w3))))"
  using assms by (simp add: doExport_def try_finally_def try_catch_def)

lemma doExport_renderer_returns:
  assumes "provide_proxy h u document w = (Inr proxyServer, w0)"
    and "createWorkFile h document w0 = (Inr input, w1)"
    and "createConfigFile h document (Some (proxyServer = None)) w1 = (Inr conf, w2)"
    and "runMarpCli h [Arr [''-c'', path conf, path input, ''-o'', fsPath u],
                       Opts (baseUrl_of document proxyServer)] w2 = (Inr (), w3)"
  shows "doExport h u document w =
           (Inr (), dispose proxyServer
                      (call_cleanup h input
                         (call_cleanup h conf (log_event (OpenExternal (fsPath u)) w3))))"
  using assms by (simp add: doExport_def try_finally_def try_catch_def)

subsection \<open>Cleanup calls and disposals of an export\<close>

lemma disposals_simps [simp]:
  "disposals [] = []"
  "disposals (e # es) = disposal e @ disposals es"
  "disposals (tr @ tr') = disposals tr @ disposals tr'"
  by (simp_all add: disposals_def)

lemma builds_refl [simp]: "builds w w"
  by (simp add: builds_def)

lemma builds_log: "silent e \<Longrightarrow> builds w w1 \<Longrightarrow> builds w (log_event e w1)"
  by (auto simp add: builds_def)

lemma builds_same_trace: "trace w2 = trace w1 \<Longrightarrow> builds w w1 \<Longrightarrow> builds w w2"
  by (simp add: builds_def)

lemma silent_no_calls: "list_all silent es \<Longrightarrow> cleanup_calls es = [] \<and> disposals es = []"
proof (induction es)
  case (Cons e es)
  then show ?case by (cases e) simp_all
qed simp

lemma builds_calls:
  "builds w0 w' \<Longrightarrow> cleanup_calls (trace w') = cleanup_calls (trace w0)
                     \<and> disposals (trace w') = disposals (trace w0)"
  by (auto simp add: builds_def silent_no_calls)

lemma nanoid_builds: "builds w0 w \<Longrightarrow> builds w0 (snd (nanoid h w))"
  by (auto simp add: nanoid_def elim: builds_same_trace[rotated])

lemma promiseWriteFile_builds:
  assumes "builds w0 w"
  shows "builds w0 (snd (promiseWriteFile h p c w))"
  using assms
  by (auto simp add: promiseWriteFile_def builds_def split: option.splits)

lemma createWorkFile_builds:
  assumes "builds w0 w"
  shows "builds w0 (snd (createWorkFile h doc w))"
  using assms
  by (simp add: createWorkFile_def Let_def case_prod_beta nanoid_builds promiseWriteFile_builds
      split: sum.splits option.splits)

lemma theme_promise_builds:
  assumes "builds w0 w"
  shows "builds w0 (snd (theme_promise h p w))"
  using assms
  by (simp add: theme_promise_def theme_fulfilled_def default_import_nanoid_def builds_log
      split: sum.splits)

lemma promise_all_builds:
  assumes "\<And>f w. f \<in> set fs \<Longrightarrow> builds w0 w \<Longrightarrow> builds w0 (snd (f w))"
    and "builds w0 w"
  shows "builds w0 (snd (promise_all fs w))"
  using assms by (induction fs arbitrary: w) (simp_all add: case_prod_beta)

lemma marpCoreOptionForCLI_builds:
  assumes "builds w0 w"
  shows "builds w0 (snd (marpCoreOptionForCLI h doc w))"
proof -
  have "builds w0 (snd (promise_all (map (theme_promise h) (loadStyles h (styles_base h (uri doc)))) w))"
    using assms by (intro promise_all_builds) (auto simp add: theme_promise_builds)
  then show ?thesis
    by (simp add: marpCoreOptionForCLI_def Let_def case_prod_beta split: sum.splits)
qed

lemma createConfigFile_builds:
  assumes "builds w0 w"
  shows "builds w0 (snd (createConfigFile h target extra w))"
  using assms
  by (auto simp add: createConfigFile_def Let_def case_prod_beta nanoid_builds
      marpCoreOptionForCLI_builds promiseWriteFile_builds split: sum.splits)

lemma runMarpCli_builds:
  assumes "builds w0 w"
  shows "builds w0 (snd (runMarpCli h argv w))"
  using assms
  by (auto simp add: runMarpCli_def Let_def builds_def split: sum.splits)

lemma provide_proxy_builds:
  assumes "builds w0 w"
  shows "builds w0 (snd (provide_proxy h u document w))"
  using assms
  by (auto simp add: provide_proxy_def builds_def split: sum.splits option.splits)

lemma call_cleanup_calls:
  "cleanup_calls (trace (call_cleanup h f w)) = cleanup_calls (trace w) @ calls (cleanup f)"
  by (simp add: call_cleanup_def run_cleanup_calls)

lemma run_cleanups_disposals:
  assumes "\<And>c w. c \<in> set cs \<Longrightarrow> disposals (trace (snd (run_cleanup h c w))) = disposals (trace w)"
  shows "disposals (trace (snd (run_cleanups h cs w))) = disposals (trace w)"
  using assms by (induction cs arbitrary: w) (simp_all add: case_prod_beta)

lemma promiseUnlink_disposals:
  "disposals (trace (snd (promiseUnlink h p w))) = disposals (trace w)"
  by (simp add: promiseUnlink_def split: option.splits)

lemma run_cleanup_disposals:
  "disposals (trace (snd (run_cleanup h c w))) = disposals (trace w)"
proof (induction c arbitrary: w)
  case (ConfigCleanup p cs)
  then show ?case
    by (simp add: case_prod_beta run_cleanups_disposals promiseUnlink_disposals)
qed (simp_all add: promiseUnlink_disposals)

lemma call_cleanup_disposals:
  "disposals (trace (call_cleanup h f w)) = disposals (trace w)"
  by (simp add: call_cleanup_def run_cleanup_disposals)

lemma dispose_trace:
  "cleanup_calls (trace (dispose proxyServer w)) = cleanup_calls (trace w)"
  "disposals (trace (dispose proxyServer w)) =
     disposals (trace w) @ (case proxyServer of Some port \<Rightarrow> [port] | None \<Rightarrow> [])"
  by (simp_all add: dispose_def split: option.splits)

text \<open>When the config file has been built, every cleanup is called once and the proxy
  server is disposed once, whatever the renderer does.\<close>

lemma doExport_releases_when_config_built:
  assumes p: "provide_proxy h u document w = (Inr proxyServer, w0)"
    and i: "createWorkFile h document w0 = (Inr input, w1)"
    and c: "createConfigFile h document (Some (proxyServer = None)) w1 = (Inr conf, w2)"
  shows "cleanup_calls (trace (snd (doExport h u document w))) =
           cleanup_calls (trace w) @ calls (cleanup conf) @ calls (cleanup input)"
    and "disposals (trace (snd (doExport h u document w))) =
           disposals (trace w) @ (case proxyServer of Some port \<Rightarrow> [port] | None \<Rightarrow> [])"
proof -
  let ?argv = "[Arr [''-c'', path conf, path input, ''-o'', fsPath u],
                Opts (baseUrl_of document proxyServer)]"
  let ?w3 = "snd (runMarpCli h ?argv w2)"
  have "builds w w0" using provide_proxy_builds[of w w h u document] p by simp
  then have "builds w w1" using createWorkFile_builds[of w w0 h document] i by simp
  then have "builds w w2"
    using createConfigFile_builds[of w w1 h document "Some (proxyServer = None)"] c by simp
  then have "builds w ?w3" by (rule runMarpCli_builds)
  then have w3: "cleanup_calls (trace ?w3) = cleanup_calls (trace w)"
    "disposals (trace ?w3) = disposals (trace w)"
    using builds_calls by blast+
  show "cleanup_calls (trace (snd (doExport h u document w))) =
           cleanup_calls (trace w) @ calls (cleanup conf) @ calls (cleanup input)"
  proof (cases "fst (runMarpCli h ?argv w2)")
    case (Inl e)
    then have "runMarpCli h ?argv w2 = (Inl e, ?w3)" by (simp add: prod_eq_iff)
    from doExport_renderer_throws[OF p i c this] show ?thesis
      by (simp add: dispose_trace call_cleanup_calls w3)
  next
    case (Inr x)
    then have "runMarpCli h ?argv w2 = (Inr (), ?w3)" by (simp add: prod_eq_iff)
    from doExport_renderer_returns[OF p i c this] show ?thesis
      by (simp add: dispose_trace call_cleanup_calls w3)
  qed
  show "disposals (trace (snd (doExport h u document w))) =
           disposals (trace w) @ (case proxyServer of Some port \<Rightarrow> [port] | None \<Rightarrow> [])"
  proof (cases "fst (runMarpCli h ?argv w2)")
    case (Inl e)
    then have "runMarpCli h ?argv w2 = (Inl e, ?w3)" by (simp add: prod_eq_iff)
    from doExport_renderer_throws[OF p i c this] show ?thesis
      by (simp add: dispose_trace call_cleanup_disposals w3)
  next
    case (Inr x)
    then have "runMarpCli h ?argv w2 = (Inr (), ?w3)" by (simp add: prod_eq_iff)
    from doExport_renderer_returns[OF p i c this] show ?thesis
      by (simp add: dispose_trace call_cleanup_disposals w3)
  qed
qed

text \<open>When the config build throws, the cleanup of the input is the only one called.\<close>

lemma doExport_releases_when_config_throws:
  assumes p: "provide_proxy h u document w = (Inr proxyServer, w0)"
    and i: "createWorkFile h document w0 = (Inr input, w1)"
    and c: "createConfigFile h document (Some (proxyServer = None)) w1 = (Inl e, w2)"
  shows "cleanup_calls (trace (snd (doExport h u document w))) =
           cleanup_calls (trace w) @ calls (cleanup input)"
proof -
  have "builds w w0" using provide_proxy_builds[of w w h u document] p by simp
  then have "builds w w1" using createWorkFile_builds[of w w0 h document] i by simp
  then have "builds w w2"
    using createConfigFile_builds[of w w1 h document "Some (proxyServer = None)"] c by simp
  then have "cleanup_calls (trace w2) = cleanup_calls (trace w)"
    using builds_calls by blast
  with doExport_config_throws[OF p i c] show ?thesis
    by (simp add: dispose_trace call_cleanup_calls)
qed

section \<open>Claims about createWorkFile\<close>

text \<open>C5. For a document whose URI scheme is \<^verbatim>\<open>file\<close> and which is not dirty,
  \<^verbatim>\<open>createWorkFile\<close> returns the document's own \<^verbatim>\<open>fsPath\<close> and changes nothing; the
  cleanup it returns resolves and leaves every file as it was.\<close>

theorem createWorkFile_real_file:
  assumes "scheme (uri doc) = ''file''" and "\<not> isDirty doc"
  shows "\<exists>f. createWorkFile h doc w = (Inr f, w) \<and> path f = fsPath (uri doc)
           \<and> cleanup f = NoCleanup
           \<and> fst (run_cleanup h (cleanup f) w') = Inr ()
           \<and> files (snd (run_cleanup h (cleanup f) w')) = files w'"
  using assms by (simp add: createWorkFile_def)

theorem createWorkFile_real_file_witness:
  "scheme (uri saved_doc) = ''file'' \<and> \<not> isDirty saved_doc
   \<and> createWorkFile example_host saved_doc example_world =
       (Inr \<lparr>path = ''/ws/docs/a.md'', cleanup = NoCleanup\<rparr>, example_world)"
  using createWorkFile_real_file[of saved_doc example_host example_world example_world]
  by (auto simp add: saved_doc_def)

text \<open>C4. For a document that is dirty or whose scheme is not \<^verbatim>\<open>file\<close>,
  \<^verbatim>\<open>createWorkFile\<close> writes the document's text to the first location of
  \<open>fallback_locations\<close> at which the write succeeds, and to no other.  The locations before
  it are each tried once, in order, and their failures are not reported.  When the write
  fails at every location, the error of the last one (the temporary directory of the
  operating system) is thrown and no file is left.  The cleanup of the returned work file
  unlinks the file that was written and nothing else.\<close>

theorem createWorkFile_fallback:
  assumes dirty: "scheme (uri doc) \<noteq> ''file'' \<or> isDirty doc"
  shows "(case find (\<lambda>p. writeFile_error h p = None) (fallback_locations h doc w) of
            Some p \<Rightarrow>
              fst (createWorkFile h doc w) = Inr \<lparr>path = p, cleanup = UnlinkFile p\<rparr>
              \<and> files (snd (createWorkFile h doc w)) = (files w)(p \<mapsto> Text (getText doc))
              \<and> write_attempts (trace (snd (createWorkFile h doc w))) =
                  write_attempts (trace w)
                  @ takeWhile (\<lambda>p. writeFile_error h p \<noteq> None) (fallback_locations h doc w) @ [p]
              \<and> (\<forall>w'. unlink_error h p = None \<and> p \<in> dom (files w') \<longrightarrow>
                    files (snd (run_cleanup h (UnlinkFile p) w')) = (files w')(p := None))
          | None \<Rightarrow>
              (\<exists>e. writeFile_error h (last (fallback_locations h doc w)) = Some e
                 \<and> fst (createWorkFile h doc w) = Inl e)
              \<and> files (snd (createWorkFile h doc w)) = files w
              \<and> write_attempts (trace (snd (createWorkFile h doc w))) =
                  write_attempts (trace w) @ fallback_locations h doc w)"
proof -
  let ?name = "''.marp-vscode-tmp-'' @ nanoid_token h (issued w)"
  let ?p1 = "join h (dirname h (fsPath (uri doc))) ?name"
  let ?p3 = "join h (tmpdir h) ?name"
  note defs = createWorkFile_def fallback_locations_def Let_def nanoid_def createCleanup_def
    promiseWriteFile_def unlink_existing
  show ?thesis
  proof (cases "writeFile_error h ?p1")
    case None
    with dirty show ?thesis by (simp add: defs)
  next
    case e1: (Some e1)
    show ?thesis
    proof (cases "getWorkspaceFolder h (uri doc)")
      case None
      show ?thesis
      proof (cases "writeFile_error h ?p3")
        case None
        with dirty e1 \<open>getWorkspaceFolder h (uri doc) = None\<close> show ?thesis by (simp add: defs)
      next
        case (Some e3)
        with dirty e1 \<open>getWorkspaceFolder h (uri doc) = None\<close> show ?thesis by (simp add: defs)
      qed
    next
      case (Some folder)
      let ?p2 = "join h (fsPath (folder_uri folder)) ?name"
      show ?thesis
      proof (cases "scheme (folder_uri folder) = ''file''")
        case False
        show ?thesis
        proof (cases "writeFile_error h ?p3")
          case None
          with dirty e1 Some False show ?thesis by (simp add: defs)
        next
          case e3: (Some e3)
          with dirty e1 Some False show ?thesis by (simp add: defs)
        qed
      next
        case True
        show ?thesis
        proof (cases "writeFile_error h ?p2")
          case None
          with dirty e1 Some True show ?thesis by (simp add: defs)
        next
          case e2: (Some e2)
          show ?thesis
          proof (cases "writeFile_error h ?p3")
            case None
            with dirty e1 Some True e2 show ?thesis by (simp add: defs)
          next
            case e3: (Some e3)
            with dirty e1 Some True e2 show ?thesis by (simp add: defs)
          qed
        qed
      qed
    qed
  qed
qed

theorem createWorkFile_fallback_witness:
  "isDirty dirty_doc
   \<and> fst (createWorkFile readonly_workspace_host dirty_doc example_world) =
       Inr \<lparr>path = ''/tmp/.marp-vscode-tmp-0'', cleanup = UnlinkFile ''/tmp/.marp-vscode-tmp-0''\<rparr>
   \<and> files (snd (createWorkFile readonly_workspace_host dirty_doc example_world)) =
       [''/tmp/.marp-vscode-tmp-0'' \<mapsto> Text ''# Slide'']
   \<and> write_attempts (trace (snd (createWorkFile readonly_workspace_host dirty_doc example_world))) =
       [''/ws/docs/.marp-vscode-tmp-0'', ''/ws/.marp-vscode-tmp-0'', ''/tmp/.marp-vscode-tmp-0'']"
proof -
  have dirty: "scheme (uri dirty_doc) \<noteq> ''file'' \<or> isDirty dirty_doc"
    by (simp add: dirty_doc_def)
  have locations: "fallback_locations readonly_workspace_host dirty_doc example_world =
      [''/ws/docs/.marp-vscode-tmp-0'', ''/ws/.marp-vscode-tmp-0'', ''/tmp/.marp-vscode-tmp-0'']"
    by (simp add: fallback_locations_def readonly_workspace_host_def example_host_def
        example_world_def example_folder_def dirty_doc_def saved_doc_def simple_join_def
        simple_dirname_def decimal.simps digit_def Let_def)
  have denied: "writeFile_error readonly_workspace_host =
      (\<lambda>p. if take 5 p = ''/tmp/'' then None else Some (Error ''Error'' ''EACCES''))"
    by (simp add: readonly_workspace_host_def example_host_def)
  show ?thesis
    using createWorkFile_fallback[OF dirty, of readonly_workspace_host example_world]
    unfolding locations denied
    by (simp add: example_world_def dirty_doc_def saved_doc_def)
qed

section \<open>Claims about runMarpCli\<close>

text \<open>C3. The claim is that \<^verbatim>\<open>process.env.CHROME_PATH\<close> has after every call the value it
  had before, also when it was not set.  When the variable is set, the \<^verbatim>\<open>finally\<close> block
  restores it (\<open>runMarpCli_restores_set_env\<close>).  When it is not set, the block assigns
  \<^verbatim>\<open>undefined\<close>, which Node stores as the string \<^verbatim>\<open>'undefined'\<close>: the variable is set
  after the call.  The theorem runs the code on a fresh process.\<close>

theorem runMarpCli_unset_env_becomes_string:
  "CHROME_PATH example_world = None
   \<and> fst (runMarpCli example_host example_argv example_world) = Inr ()
   \<and> CHROME_PATH (snd (runMarpCli example_host example_argv example_world)) = Some ''undefined''"
  by (simp add: runMarpCli_def Let_def env_assign_def example_world_def example_host_def)

text \<open>C8. \<^verbatim>\<open>runMarpCli\<close> resolves exactly when the renderer returns exit code 0.  When
  the renderer returns another exit code, \<^verbatim>\<open>runMarpCli\<close> throws a \<^verbatim>\<open>MarpCLIError\<close> whose
  message holds that exit code in decimal.\<close>

theorem runMarpCli_exit_code:
  "(fst (runMarpCli h argv w) = Inr ()) = (marpCli h argv = Inr 0)
   \<and> (\<forall>exitCode. marpCli h argv = Inr exitCode \<and> exitCode \<noteq> 0 \<longrightarrow>
         fst (runMarpCli h argv w) =
           Inl (MarpCLIError (''Marp CLI throwed unexpected error with exit code ''
                               @ number_text exitCode @ ''.'')))"
  by (auto simp add: runMarpCli_def Let_def exit_code_message_def split: sum.splits)

theorem runMarpCli_exit_code_witness:
  "fst (runMarpCli (example_host\<lparr>marpCli := (\<lambda>argv. Inr 3)\<rparr>) example_argv example_world) =
     Inl (MarpCLIError ''Marp CLI throwed unexpected error with exit code 3.'')
   \<and> fst (runMarpCli example_host example_argv example_world) = Inr ()"
  using runMarpCli_exit_code[of "example_host\<lparr>marpCli := (\<lambda>argv. Inr 3)\<rparr>" example_argv example_world]
    runMarpCli_exit_code[of example_host example_argv example_world]
  by (simp add: example_host_def number_text_def decimal.simps digit_def)

text \<open>C9. When the renderer throws its \<^verbatim>\<open>CLIError\<close> with the code
  \<^verbatim>\<open>NOT_FOUND_CHROMIUM\<close>, \<^verbatim>\<open>runMarpCli\<close> throws a \<^verbatim>\<open>MarpCLIError\<close> that asks to install
  Google Chrome and that names Chromium exactly when the platform is \<^verbatim>\<open>linux\<close>.  Any
  other error thrown by the renderer is thrown on as it is.\<close>

theorem runMarpCli_classifies_errors:
  "(\<forall>m. marpCli h argv = Inl (CLIError NOT_FOUND_CHROMIUM m) \<longrightarrow>
      (\<exists>hint. fst (runMarpCli h argv w) = Inl (MarpCLIError hint)
         \<and> mentions hint ''install''
         \<and> mentions hint ''[Google Chrome](https://www.google.com/chrome/)''
         \<and> (mentions hint ''Chromium'' \<longleftrightarrow> platform h = ''linux'')))
   \<and> (\<forall>e. marpCli h argv = Inl e \<and> (\<forall>m. e \<noteq> CLIError NOT_FOUND_CHROMIUM m) \<longrightarrow>
         fst (runMarpCli h argv w) = Inl e)"
proof -
  have linux: "mentions (''It requires to install [Google Chrome](https://www.google.com/chrome/)''
       @ '' or [Chromium](https://www.chromium.org/)'' @ '' for exporting.'') ''Chromium''"
    by simp
  have other: "\<not> mentions (''It requires to install [Google Chrome](https://www.google.com/chrome/)''
       @ [] @ '' for exporting.'') ''Chromium''"
    by simp
  have install: "mentions (''It requires to install [Google Chrome](https://www.google.com/chrome/)'' @ s) ''install''" for s
    by simp
  have chrome: "mentions (''It requires to install [Google Chrome](https://www.google.com/chrome/)'' @ s)
      ''[Google Chrome](https://www.google.com/chrome/)''" for s
    by simp
  have a: "mentions (not_found_message h) ''Chromium'' \<longleftrightarrow> platform h = ''linux''"
    using linux other by (simp add: not_found_message_def Let_def del: mentions.simps)
  have b: "mentions (not_found_message h) ''install''"
    using install by (simp add: not_found_message_def Let_def del: mentions.simps)
  have c: "mentions (not_found_message h) ''[Google Chrome](https://www.google.com/chrome/)''"
    using chrome by (simp add: not_found_message_def Let_def del: mentions.simps)
  have d: "(\<forall>m. e \<noteq> CLIError NOT_FOUND_CHROMIUM m) \<Longrightarrow> rethrown h e = e" for e
    by (auto simp add: rethrown_def split: error.splits CLIErrorCode.splits)
  show ?thesis
    using a b c d
    by (auto simp add: runMarpCli_def Let_def rethrown_def simp del: mentions.simps split: sum.splits)
qed

theorem runMarpCli_classifies_errors_witness:
  "fst (runMarpCli (example_host\<lparr>marpCli := (\<lambda>argv. Inl (CLIError NOT_FOUND_CHROMIUM ''no browser''))\<rparr>)
          example_argv example_world) =
     Inl (MarpCLIError
       ''It requires to install [Google Chrome](https://www.google.com/chrome/) or [Chromium](https://www.chromium.org/) for exporting.'')
   \<and> fst (runMarpCli (example_host\<lparr>platform := ''darwin'',
                         marpCli := (\<lambda>argv. Inl (CLIError NOT_FOUND_CHROMIUM ''no browser''))\<rparr>)
          example_argv example_world) =
     Inl (MarpCLIError
       ''It requires to install [Google Chrome](https://www.google.com/chrome/) for exporting.'')
   \<and> fst (runMarpCli (example_host\<lparr>marpCli := (\<lambda>argv. Inl (CLIError (OTHER_CODE 1) ''bad option''))\<rparr>)
          example_argv example_world) =
     Inl (CLIError (OTHER_CODE 1) ''bad option'')"
  using
    runMarpCli_classifies_errors[of
      "example_host\<lparr>marpCli := (\<lambda>argv. Inl (CLIError (OTHER_CODE 1) ''bad option''))\<rparr>"
      example_argv example_world]
  by (simp add: example_host_def runMarpCli_def Let_def rethrown_def not_found_message_def)

section \<open>Claims about theme work files and the config file\<close>

text \<open>C6. The claim is that with N theme references of which exactly one remote fetch
  fails, \<^verbatim>\<open>marpCoreOptionForCLI\<close> returns N - 1 theme work files, does not throw and logs
  the failure, a fetched remote theme being staged in a uniquely named file of the
  temporary directory.  The theorem runs the code on three references: a local file, a
  remote theme whose fetch fails and a remote theme that is fetched.  The callback of the
  fetched remote theme calls the default import of \<^verbatim>\<open>nanoid\<close>, which throws a
  \<^verbatim>\<open>TypeError\<close>; the rejection handler, being the second argument of \<^verbatim>\<open>then\<close>, does not
  see it, \<^verbatim>\<open>Promise.all\<close> rejects and \<^verbatim>\<open>marpCoreOptionForCLI\<close> throws.  No temporary file
  is written.  The same happens whenever a remote theme is fetched
  (\<open>marpCoreOptionForCLI_remote_throws\<close>); with local themes only, the claim holds
  (\<open>marpCoreOptionForCLI_one_rejected_local\<close>).\<close>

theorem theme_resolution_throws_on_fetched_remote:
  "configured_themes themes_host saved_doc =
     [Inr local_theme, Inl (Error ''Error'' ''Request failed with status code 404''),
      Inr remote_theme]
   \<and> length (rejected (configured_themes themes_host saved_doc)) = 1
   \<and> fst (marpCoreOptionForCLI themes_host saved_doc example_world) = Inl nanoid_type_error
   \<and> write_attempts (trace (snd (marpCoreOptionForCLI themes_host saved_doc example_world))) = []
   \<and> files (snd (marpCoreOptionForCLI themes_host saved_doc example_world)) = Map.empty"
  by (simp add: configured_themes_def marpCoreOptionForCLI_def themes_host_def example_defs
      local_theme_def remote_theme_def theme_promise_def theme_fulfilled_def
      default_import_nanoid_def Let_def)

text \<open>C7. After \<^verbatim>\<open>createConfigFile\<close> has returned a work file, the config file exists,
  and calling the cleanup of that work file calls the cleanup of every theme work file and
  attempts to unlink the config file and every temporary theme file, whatever the outcome
  of the single unlinks.  Every one of these files whose unlink the host does not refuse
  is gone afterwards.\<close>

theorem createConfigFile_cleanup_exhaustive:
  assumes "createConfigFile h target extra w = (Inr conf, w1)"
  shows "\<exists>opts. fst (marpCoreOptionForCLI h target (snd (nanoid h w))) = Inr opts
           \<and> path conf \<in> dom (files w1)
           \<and> (\<forall>w2.
                 cleanup_calls (trace (snd (run_cleanup h (cleanup conf) w2))) =
                   cleanup_calls (trace w2) @ cleanup conf # map cleanup (themeFiles opts)
                 \<and> unlink_attempts (trace (snd (run_cleanup h (cleanup conf) w2))) =
                     unlink_attempts (trace w2)
                     @ path conf # map path (filter (\<lambda>f. cleanup f \<noteq> NoCleanup) (themeFiles opts))
                 \<and> (\<forall>p \<in> set (path conf
                               # map path (filter (\<lambda>f. cleanup f \<noteq> NoCleanup) (themeFiles opts))).
                       unlink_error h p = None \<longrightarrow>
                       p \<notin> dom (files (snd (run_cleanup h (cleanup conf) w2)))))"
proof -
  from createConfigFile_result[OF assms] obtain opts where
    opts: "fst (marpCoreOptionForCLI h target (snd (nanoid h w))) = Inr opts"
    and cl: "cleanup conf = ConfigCleanup (path conf) (map cleanup (themeFiles opts))"
    and written: "files w1 (path conf) = Some (Json (stringify opts))"
    by blast
  have flat: "\<And>f. f \<in> set (themeFiles opts) \<Longrightarrow>
                cleanup f = NoCleanup \<or> cleanup f = UnlinkFile (path f)"
    using opts by (rule marpCoreOptionForCLI_flat)
  have t: "targets (cleanup conf) =
             path conf # map path (filter (\<lambda>f. cleanup f \<noteq> NoCleanup) (themeFiles opts))"
    using flat_targets[OF flat] by (simp add: cl)
  have c: "calls (cleanup conf) = cleanup conf # map cleanup (themeFiles opts)"
    using flat_calls[OF flat] by (simp add: cl)
  have "\<forall>w2.
          cleanup_calls (trace (snd (run_cleanup h (cleanup conf) w2))) =
            cleanup_calls (trace w2) @ cleanup conf # map cleanup (themeFiles opts)
          \<and> unlink_attempts (trace (snd (run_cleanup h (cleanup conf) w2))) =
              unlink_attempts (trace w2)
              @ path conf # map path (filter (\<lambda>f. cleanup f \<noteq> NoCleanup) (themeFiles opts))
          \<and> (\<forall>p \<in> set (path conf
                        # map path (filter (\<lambda>f. cleanup f \<noteq> NoCleanup) (themeFiles opts))).
                unlink_error h p = None \<longrightarrow>
                p \<notin> dom (files (snd (run_cleanup h (cleanup conf) w2))))"
    using run_cleanup_calls[of h "cleanup conf"] run_cleanup_unlink_attempts[of h "cleanup conf"]
      run_cleanup_gone[of h _ "cleanup conf"]
    unfolding t c by blast
  moreover have "path conf \<in> dom (files w1)" using written by blast
  ultimately show ?thesis using opts by blast
qed

theorem createConfigFile_cleanup_exhaustive_witness:
  "(\<exists>conf w1. createConfigFile stuck_config_host saved_doc None example_world = (Inr conf, w1)
      \<and> path conf = ''/tmp/.marp-vscode-cli-conf-0.json''
      \<and> unlink_error stuck_config_host (path conf) \<noteq> None
      \<and> path conf \<in> dom (files w1)
      \<and> unlink_attempts (trace (snd (run_cleanup stuck_config_host (cleanup conf) w1))) =
          [''/tmp/.marp-vscode-cli-conf-0.json'']
      \<and> cleanup_calls (trace (snd (run_cleanup stuck_config_host (cleanup conf) w1))) =
          [ConfigCleanup ''/tmp/.marp-vscode-cli-conf-0.json'' [NoCleanup], NoCleanup])
   \<and> (\<exists>conf w1. createConfigFile local_theme_host saved_doc None example_world = (Inr conf, w1)
      \<and> path conf = ''/tmp/.marp-vscode-cli-conf-0.json''
      \<and> unlink_error local_theme_host (path conf) = None
      \<and> path conf \<in> dom (files w1)
      \<and> path conf \<notin> dom (files (snd (run_cleanup local_theme_host (cleanup conf) w1))))"
proof -
  let ?conf = "\<lparr>path = ''/tmp/.marp-vscode-cli-conf-0.json'',
          cleanup = ConfigCleanup ''/tmp/.marp-vscode-cli-conf-0.json'' [NoCleanup]\<rparr>"
  let ?w1 = "snd (createConfigFile stuck_config_host saved_doc None example_world)"
  let ?v1 = "snd (createConfigFile local_theme_host saved_doc None example_world)"
  have built: "createConfigFile stuck_config_host saved_doc None example_world = (Inr ?conf, ?w1)"
    using stuck_config_host_conf by (simp add: prod_eq_iff)
  have built': "createConfigFile local_theme_host saved_doc None example_world = (Inr ?conf, ?v1)"
    using local_theme_host_conf by (simp add: prod_eq_iff)
  have quiet_before: "unlink_attempts (trace ?w1) = []" "cleanup_calls (trace ?w1) = []"
    by (simp_all add: createConfigFile_def marpCoreOptionForCLI_def stuck_config_host_def
        example_defs local_theme_def theme_promise_def theme_fulfilled_def
        promiseWriteFile_def nanoid_def Let_def or_undefined_def breaks_def
        List.map_filter_simps)
  have refused: "unlink_error stuck_config_host ''/tmp/.marp-vscode-cli-conf-0.json'' \<noteq> None"
    by (simp add: stuck_config_host_def example_host_def)
  have allowed: "unlink_error local_theme_host ''/tmp/.marp-vscode-cli-conf-0.json'' = None"
    by (simp add: local_theme_host_def example_host_def)
  from createConfigFile_cleanup_exhaustive[OF built] obtain opts where
    opts: "fst (marpCoreOptionForCLI stuck_config_host saved_doc
                  (snd (nanoid stuck_config_host example_world))) = Inr opts"
    and there: "path ?conf \<in> dom (files ?w1)"
    and all: "\<forall>w2.
        cleanup_calls (trace (snd (run_cleanup stuck_config_host (cleanup ?conf) w2))) =
          cleanup_calls (trace w2) @ cleanup ?conf # map cleanup (themeFiles opts)
        \<and> unlink_attempts (trace (snd (run_cleanup stuck_config_host (cleanup ?conf) w2))) =
            unlink_attempts (trace w2)
            @ path ?conf # map path (filter (\<lambda>f. cleanup f \<noteq> NoCleanup) (themeFiles opts))
        \<and> (\<forall>p \<in> set (path ?conf
                      # map path (filter (\<lambda>f. cleanup f \<noteq> NoCleanup) (themeFiles opts))).
              unlink_error stuck_config_host p = None \<longrightarrow>
              p \<notin> dom (files (snd (run_cleanup stuck_config_host (cleanup ?conf) w2))))"
    by blast
  have themes: "themeFiles opts = [\<lparr>path = ''/ws/themes/a.css'', cleanup = NoCleanup\<rparr>]"
    using opts stuck_config_host_options by auto
  from all[rule_format, of ?w1, unfolded themes]
  have attempts: "unlink_attempts (trace (snd (run_cleanup stuck_config_host (cleanup ?conf) ?w1))) =
          [''/tmp/.marp-vscode-cli-conf-0.json'']"
    and called: "cleanup_calls (trace (snd (run_cleanup stuck_config_host (cleanup ?conf) ?w1))) =
          [ConfigCleanup ''/tmp/.marp-vscode-cli-conf-0.json'' [NoCleanup], NoCleanup]"
    using quiet_before by (simp_all del: run_cleanup.simps)
  from createConfigFile_cleanup_exhaustive[OF built'] obtain opts' where
    opts': "fst (marpCoreOptionForCLI local_theme_host saved_doc
                   (snd (nanoid local_theme_host example_world))) = Inr opts'"
    and there': "path ?conf \<in> dom (files ?v1)"
    and all': "\<forall>w2.
        cleanup_calls (trace (snd (run_cleanup local_theme_host (cleanup ?conf) w2))) =
          cleanup_calls (trace w2) @ cleanup ?conf # map cleanup (themeFiles opts')
        \<and> unlink_attempts (trace (snd (run_cleanup local_theme_host (cleanup ?conf) w2))) =
            unlink_attempts (trace w2)
            @ path ?conf # map path (filter (\<lambda>f. cleanup f \<noteq> NoCleanup) (themeFiles opts'))
        \<and> (\<forall>p \<in> set (path ?conf
                      # map path (filter (\<lambda>f. cleanup f \<noteq> NoCleanup) (themeFiles opts'))).
              unlink_error local_theme_host p = None \<longrightarrow>
              p \<notin> dom (files (snd (run_cleanup local_theme_host (cleanup ?conf) w2))))"
    by blast
  from all'[rule_format, of ?v1]
  have "\<forall>p \<in> set (path ?conf
                 # map path (filter (\<lambda>f. cleanup f \<noteq> NoCleanup) (themeFiles opts'))).
          unlink_error local_theme_host p = None \<longrightarrow>
          p \<notin> dom (files (snd (run_cleanup local_theme_host (cleanup ?conf) ?v1)))"
    by blast
  then have gone: "path ?conf \<notin> dom (files (snd (run_cleanup local_theme_host (cleanup ?conf) ?v1)))"
    using allowed by (simp del: run_cleanup.simps)
  have first: "\<exists>conf w1. createConfigFile stuck_config_host saved_doc None example_world = (Inr conf, w1)
      \<and> path conf = ''/tmp/.marp-vscode-cli-conf-0.json''
      \<and> unlink_error stuck_config_host (path conf) \<noteq> None
      \<and> path conf \<in> dom (files w1)
      \<and> unlink_attempts (trace (snd (run_cleanup stuck_config_host (cleanup conf) w1))) =
          [''/tmp/.marp-vscode-cli-conf-0.json'']
      \<and> cleanup_calls (trace (snd (run_cleanup stuck_config_host (cleanup conf) w1))) =
          [ConfigCleanup ''/tmp/.marp-vscode-cli-conf-0.json'' [NoCleanup], NoCleanup]"
  proof (intro exI conjI)
    show "createConfigFile stuck_config_host saved_doc None example_world = (Inr ?conf, ?w1)"
      by (rule built)
    show "path ?conf = ''/tmp/.marp-vscode-cli-conf-0.json''" by simp
    show "unlink_error stuck_config_host (path ?conf) \<noteq> None" using refused by simp
    show "path ?conf \<in> dom (files ?w1)" by (rule there)
    show "unlink_attempts (trace (snd (run_cleanup stuck_config_host (cleanup ?conf) ?w1))) =
          [''/tmp/.marp-vscode-cli-conf-0.json'']"
      by (rule attempts)
    show "cleanup_calls (trace (snd (run_cleanup stuck_config_host (cleanup ?conf) ?w1))) =
          [ConfigCleanup ''/tmp/.marp-vscode-cli-conf-0.json'' [NoCleanup], NoCleanup]"
      by (rule called)
  qed
  have second: "\<exists>conf w1. createConfigFile local_theme_host saved_doc None example_world = (Inr conf, w1)
      \<and> path conf = ''/tmp/.marp-vscode-cli-conf-0.json''
      \<and> unlink_error local_theme_host (path conf) = None
      \<and> path conf \<in> dom (files w1)
      \<and> path conf \<notin> dom (files (snd (run_cleanup local_theme_host (cleanup conf) w1)))"
  proof (intro exI conjI)
    show "createConfigFile local_theme_host saved_doc None example_world = (Inr ?conf, ?v1)"
      by (rule built')
    show "path ?conf = ''/tmp/.marp-vscode-cli-conf-0.json''" by simp
    show "unlink_error local_theme_host (path ?conf) = None" using allowed by simp
    show "path ?conf \<in> dom (files ?v1)" by (rule there')
    show "path ?conf \<notin> dom (files (snd (run_cleanup local_theme_host (cleanup ?conf) ?v1)))"
      by (rule gone)
  qed
  show ?thesis using first second by (rule conjI)
qed
section \<open>Claims about doExport\<close>

text \<open>C2. On a host where an untitled document belongs to no workspace folder (VS Code
  resolves a folder by the URI, scheme included) and where the proxy server of the
  document's folder can be created, \<^verbatim>\<open>doExport\<close> creates a proxy server exactly when the
  extension of the target is one of pdf, pptx, png, jpg, jpeg, the document is not backed
  by a local file (it is virtual or untitled) and the document has a workspace folder; it
  then creates one, and otherwise none.  In particular the export of an untitled document
  creates no proxy server.\<close>

theorem doExport_proxy_iff:
  assumes untitled:
      "scheme (uri document) = ''untitled'' \<Longrightarrow> getWorkspaceFolder h (uri document) = None"
    and binds:
      "\<And>folder. getWorkspaceFolder h (uri document) = Some folder \<Longrightarrow>
         \<exists>port. createWorkspaceProxyServer h folder = Inr port"
  shows "((\<exists>port. proxies_created (trace (snd (doExport h u document w))) =
                    proxies_created (trace w) @ [port])
          \<longleftrightarrow> claimed_proxy_condition h u document)
       \<and> (\<not> claimed_proxy_condition h u document \<longrightarrow>
            proxies_created (trace (snd (doExport h u document w))) = proxies_created (trace w))
       \<and> (scheme (uri document) = ''untitled'' \<longrightarrow>
            proxies_created (trace (snd (doExport h u document w))) = proxies_created (trace w))"
proof (cases "getWorkspaceFolder h (uri document)")
  case None
  then show ?thesis
    using doExport_proxies[of h u document w]
    by (simp add: claimed_proxy_condition_def virtual_or_untitled_def)
next
  case (Some folder)
  then obtain port where port: "createWorkspaceProxyServer h folder = Inr port"
    using binds by blast
  have titled: "scheme (uri document) \<noteq> ''untitled''"
    using untitled Some by auto
  show ?thesis
    using doExport_proxies[of h u document w] Some port titled
    by (simp add: claimed_proxy_condition_def virtual_or_untitled_def)
qed

theorem doExport_proxy_iff_witness:
  "claimed_proxy_condition virtual_workspace_host pdf_uri virtual_doc
   \<and> proxies_created (trace (snd (doExport virtual_workspace_host pdf_uri virtual_doc example_world))) =
       [8080]
   \<and> \<not> claimed_proxy_condition virtual_workspace_host png_uri untitled_doc
   \<and> proxies_created (trace (snd (doExport virtual_workspace_host png_uri untitled_doc example_world))) =
       []"
proof -
  have folders:
    "getWorkspaceFolder virtual_workspace_host (uri virtual_doc) = Some virtual_folder"
    "getWorkspaceFolder virtual_workspace_host (uri untitled_doc) = None"
    by (simp_all add: virtual_workspace_host_def example_host_def virtual_doc_def untitled_doc_def)
  have binds: "\<And>folder. \<exists>port. createWorkspaceProxyServer virtual_workspace_host folder = Inr port"
    by (simp add: virtual_workspace_host_def example_host_def)
  have yes: "claimed_proxy_condition virtual_workspace_host pdf_uri virtual_doc"
    by (simp add: claimed_proxy_condition_def virtual_or_untitled_def virtual_workspace_host_def
        example_host_def pdf_uri_def virtual_doc_def simple_extname_def strip_dot_def)
  have no: "\<not> claimed_proxy_condition virtual_workspace_host png_uri untitled_doc"
    by (simp add: claimed_proxy_condition_def folders)
  have "\<exists>port. proxies_created (trace (snd (doExport virtual_workspace_host pdf_uri virtual_doc
                   example_world))) = proxies_created (trace example_world) @ [port]"
    using doExport_proxy_iff[of virtual_doc virtual_workspace_host pdf_uri example_world]
      folders binds yes by (simp add: virtual_doc_def)
  then obtain port where
    created: "proxies_created (trace (snd (doExport virtual_workspace_host pdf_uri virtual_doc
                example_world))) = [port]"
    by (auto simp add: example_world_def)
  have "port = 8080"
    using created doExport_proxies[of virtual_workspace_host pdf_uri virtual_doc example_world]
    by (simp add: virtual_workspace_host_def example_host_def example_world_def pdf_uri_def
        virtual_doc_def simple_extname_def strip_dot_def split: if_splits)
  moreover have "proxies_created (trace (snd (doExport virtual_workspace_host png_uri untitled_doc
                   example_world))) = proxies_created (trace example_world)"
    using doExport_proxy_iff[of untitled_doc virtual_workspace_host png_uri example_world]
      folders binds no by simp
  ultimately show ?thesis
    using yes no created by (simp add: example_world_def)
qed

text \<open>C10. \<^verbatim>\<open>createConfigFile\<close> does not depend on a second argument.  The config file
  it writes has \<^verbatim>\<open>allowLocalFiles\<close> set to \<^verbatim>\<open>true\<close>, and so has every JSON file written
  during \<^verbatim>\<open>doExport\<close>, also when a proxy server is active and the export command passes
  \<^verbatim>\<open>{ allowLocalFiles: false }\<close>.\<close>

theorem createConfigFile_allowLocalFiles:
  "createConfigFile h target extra w = createConfigFile h target None w
   \<and> (\<forall>conf w1. createConfigFile h target extra w = (Inr conf, w1) \<longrightarrow>
         (\<exists>j. files w1 (path conf) = Some (Json j)
            \<and> json_field ''allowLocalFiles'' j = Some (JBool True)))
   \<and> (\<exists>js. json_writes (trace (snd (doExport h u document w))) = json_writes (trace w) @ js
         \<and> list_all (\<lambda>j. json_field ''allowLocalFiles'' j = Some (JBool True)) js)"
proof (intro conjI allI impI)
  show "createConfigFile h target extra w = createConfigFile h target None w"
    by (rule createConfigFile_extra)
next
  fix conf w1
  assume "createConfigFile h target extra w = (Inr conf, w1)"
  from createConfigFile_result[OF this] obtain opts where
    opts: "fst (marpCoreOptionForCLI h target (snd (nanoid h w))) = Inr opts"
    and written: "files w1 (path conf) = Some (Json (stringify opts))"
    by blast
  have "json_field ''allowLocalFiles'' (stringify opts) = Some (JBool True)"
    using marpCoreOptionForCLI_allowLocalFiles[OF opts] by (simp add: stringify_allows)
  then show "\<exists>j. files w1 (path conf) = Some (Json j)
            \<and> json_field ''allowLocalFiles'' j = Some (JBool True)"
    using written by blast
next
  show "\<exists>js. json_writes (trace (snd (doExport h u document w))) = json_writes (trace w) @ js
         \<and> list_all (\<lambda>j. json_field ''allowLocalFiles'' j = Some (JBool True)) js"
    by (rule doExport_json_writes)
qed

theorem createConfigFile_allowLocalFiles_witness:
  "files (snd (createConfigFile workspace_host virtual_doc (Some False) example_world))
       ''/tmp/.marp-vscode-cli-conf-0.json'' =
     Some (Json (JObject
       [(''allowLocalFiles'', JBool True),
        (''options'', JObject [(''markdown'', JObject [(''breaks'', JBool True)])]),
        (''themeSet'', JArray []),
        (''vscode'', JObject [(''themeFiles'', JArray [])])]))
   \<and> proxies_created (trace (snd (doExport workspace_host pdf_uri virtual_doc example_world))) = [8080]
   \<and> list_all (\<lambda>j. json_field ''allowLocalFiles'' j = Some (JBool True))
         (json_writes (trace (snd (doExport workspace_host pdf_uri virtual_doc example_world))))"
proof -
  let ?final = "snd (doExport workspace_host pdf_uri virtual_doc example_world)"
  let ?built = "createConfigFile workspace_host virtual_doc (Some False) example_world"
  have content: "files (snd ?built) ''/tmp/.marp-vscode-cli-conf-0.json'' =
     Some (Json (JObject
       [(''allowLocalFiles'', JBool True),
        (''options'', JObject [(''markdown'', JObject [(''breaks'', JBool True)])]),
        (''themeSet'', JArray []),
        (''vscode'', JObject [(''themeFiles'', JArray [])])]))"
    by (simp add: createConfigFile_def marpCoreOptionForCLI_def workspace_host_def example_defs
        virtual_doc_def promiseWriteFile_def nanoid_def Let_def List.map_filter_simps
        styles_base_def baseFolder_def stringify_def or_undefined_def breaks_def)
  have proxy: "proxies_created (trace ?final) = [8080]"
    using doExport_proxies[of workspace_host pdf_uri virtual_doc example_world]
    by (simp add: workspace_host_def example_defs pdf_uri_def virtual_doc_def strip_dot_def)
  from createConfigFile_allowLocalFiles[of workspace_host virtual_doc "Some False" example_world
      pdf_uri virtual_doc]
  obtain js where
    js: "json_writes (trace ?final) = json_writes (trace example_world) @ js"
      "list_all (\<lambda>j. json_field ''allowLocalFiles'' j = Some (JBool True)) js"
    by blast
  have "json_writes (trace ?final) = js"
    using js(1) by (simp add: example_world_def)
  then have "list_all (\<lambda>j. json_field ''allowLocalFiles'' j = Some (JBool True))
               (json_writes (trace ?final))"
    using js(2) by simp
  then show ?thesis
    using content proxy by simp
qed

text \<open>C1. The claim is that every work file created during an export has its cleanup
  called once before \<^verbatim>\<open>doExport\<close> returns, also when the config build throws.  The
  theorem runs the export of a dirty document with one local theme on a host where the
  config file cannot be written.  \<^verbatim>\<open>createWorkFile\<close> has written the input and
  \<^verbatim>\<open>marpCoreOptionForCLI\<close> has created the work file of the theme when the write of the
  config file fails; \<^verbatim>\<open>createConfigFile\<close> throws, the error is shown, the cleanup of the
  input is called, and \<^verbatim>\<open>doExport\<close> returns.  The cleanup of the theme work file, which
  only the cleanup of the config work file would call, is not called.  On the ways through
  \<^verbatim>\<open>doExport\<close> on which the config file is built the claim holds
  (\<open>doExport_releases_when_config_built\<close>); whenever the config build throws, the cleanup of
  the input is the only one called (\<open>doExport_releases_when_config_throws\<close>).\<close>

theorem doExport_skips_theme_cleanup:
  "themeFiles_of (marpCoreOptionForCLI full_tmp_host dirty_doc example_world) =
     [\<lparr>path = ''/ws/themes/a.css'', cleanup = NoCleanup\<rparr>]
   \<and> fst (createConfigFile full_tmp_host dirty_doc (Some True)
            (snd (createWorkFile full_tmp_host dirty_doc example_world))) =
       Inl (Error ''Error'' ''ENOSPC'')
   \<and> fst (doExport full_tmp_host pdf_uri dirty_doc example_world) = Inr ()
   \<and> cleanup_calls (trace (snd (doExport full_tmp_host pdf_uri dirty_doc example_world))) =
       [UnlinkFile ''/ws/docs/.marp-vscode-tmp-0'']
   \<and> NoCleanup \<notin> set (cleanup_calls (trace (snd (doExport full_tmp_host pdf_uri dirty_doc
                                                   example_world))))"
proof -
  let ?input = "\<lparr>path = ''/ws/docs/.marp-vscode-tmp-0'',
                 cleanup = UnlinkFile ''/ws/docs/.marp-vscode-tmp-0''\<rparr>"
  let ?w1 = "snd (createWorkFile full_tmp_host dirty_doc example_world)"
  let ?w2 = "snd (createConfigFile full_tmp_host dirty_doc (Some True) ?w1)"
  have themes: "themeFiles_of (marpCoreOptionForCLI full_tmp_host dirty_doc example_world) =
     [\<lparr>path = ''/ws/themes/a.css'', cleanup = NoCleanup\<rparr>]"
    by (simp add: themeFiles_of_def marpCoreOptionForCLI_def full_tmp_host_def example_defs
        local_theme_def theme_promise_def theme_fulfilled_def Let_def or_undefined_def
        breaks_def List.map_filter_simps)
  have proxy: "provide_proxy full_tmp_host pdf_uri dirty_doc example_world = (Inr None, example_world)"
    by (simp add: provide_proxy_def shouldProvideWorkspaceProxyServer_def full_tmp_host_def
        example_defs pdf_uri_def strip_dot_def chromiumRequiredExtensions_def)
  have "fst (createWorkFile full_tmp_host dirty_doc example_world) = Inr ?input"
    by (simp add: createWorkFile_def createCleanup_def promiseWriteFile_def nanoid_def
        full_tmp_host_def example_defs Let_def)
  then have input: "createWorkFile full_tmp_host dirty_doc example_world = (Inr ?input, ?w1)"
    by (simp add: prod_eq_iff)
  have issued: "issued ?w1 = 1"
    by (simp add: createWorkFile_def createCleanup_def promiseWriteFile_def nanoid_def
        full_tmp_host_def example_defs Let_def)
  have before: "cleanup_calls (trace example_world) = []"
    by (simp add: example_world_def)
  have "fst (createConfigFile full_tmp_host dirty_doc (Some True) ?w1) =
          Inl (Error ''Error'' ''ENOSPC'')"
    using issued
    by (simp add: createConfigFile_def marpCoreOptionForCLI_def full_tmp_host_def
        example_host_def simple_join_def local_theme_def theme_promise_def theme_fulfilled_def
        promiseWriteFile_def nanoid_def Let_def case_prod_beta List.map_filter_simps)
  then have conf: "createConfigFile full_tmp_host dirty_doc (Some (None = (None :: nat option))) ?w1 =
                     (Inl (Error ''Error'' ''ENOSPC''), ?w2)"
    and thrown: "fst (createConfigFile full_tmp_host dirty_doc (Some True) ?w1) =
                   Inl (Error ''Error'' ''ENOSPC'')"
    by (simp_all add: prod_eq_iff)
  have "fst (doExport full_tmp_host pdf_uri dirty_doc example_world) = Inr ()"
    using doExport_config_throws[OF proxy input conf] by simp
  moreover have "cleanup_calls (trace (snd (doExport full_tmp_host pdf_uri dirty_doc example_world))) =
                   [UnlinkFile ''/ws/docs/.marp-vscode-tmp-0'']"
    using doExport_releases_when_config_throws[OF proxy input conf] before by simp
  ultimately show ?thesis using themes thrown by simp
qed

end
